theory Spec2Isabelle
  imports Complex_Main
begin

section \<open>Strings\<close>

text \<open>
  A JavaScript string is a sequence of UTF-16 code units; a character outside the Basic
  Multilingual Plane takes two of them, a surrogate pair. A code unit is modelled as a
  natural number (it is below 65536, and nothing in the model depends on that bound) and
  a string as the list of its code units, so that \<^const>\<open>length\<close> is
  \<^verbatim>\<open>String.prototype.length\<close>. Request body fields are strings; a field that the request
  leaves out is the empty string, which is what express-validator's own \<^verbatim>\<open>toString\<close>
  makes of \<^verbatim>\<open>undefined\<close> before it validates.

  Texts that the program only writes (messages, field paths, log lines) stay
  \<^typ>\<open>string\<close>s. \<open>js\<close> turns an ASCII literal of the source into the list of its code
  units, where the literal is compared with data.
\<close>

type_synonym jsString = "nat list"

definition js :: "string \<Rightarrow> jsString" where
  "js s = map of_char s"

text \<open>The class \<^verbatim>\<open>\s\<close> of a JavaScript regular expression, which is also what
  \<^verbatim>\<open>String.prototype.trim\<close> strips: tab, line feed, vertical tab, form feed, carriage
  return, space, no-break space, U+1680, U+2000 to U+200A, U+2028, U+2029, U+202F, U+205F,
  U+3000 and U+FEFF.\<close>

definition isSpace :: "nat \<Rightarrow> bool" where
  "isSpace u =
     ((9 \<le> u \<and> u \<le> 13) \<or> u = 32 \<or> u = 160 \<or> u = 5760 \<or> (8192 \<le> u \<and> u \<le> 8202) \<or>
      u = 8232 \<or> u = 8233 \<or> u = 8239 \<or> u = 8287 \<or> u = 12288 \<or> u = 65279)"

text \<open>The class \<^verbatim>\<open>[a-zA-Z]\<close>.\<close>

definition isLetter :: "nat \<Rightarrow> bool" where
  "isLetter u = ((97 \<le> u \<and> u \<le> 122) \<or> (65 \<le> u \<and> u \<le> 90))"

text \<open>The class \<^verbatim>\<open>[0-9]\<close>.\<close>

definition isDigit :: "nat \<Rightarrow> bool" where
  "isDigit u = (48 \<le> u \<and> u \<le> 57)"

text \<open>\<^verbatim>\<open>trim\<close>: the sanitizer of validator.js and Mongoose's \<^verbatim>\<open>trim: true\<close> setter
  both strip the leading and the trailing run of \<^verbatim>\<open>\s\<close>.\<close>

definition trim :: "jsString \<Rightarrow> jsString" where
  "trim s = rev (dropWhile isSpace (rev (dropWhile isSpace s)))"

text \<open>A value of \<^verbatim>\<open>process.env\<close> is a string or undefined; it is truthy when it is a
  non-empty string.\<close>

definition truthy :: "jsString option \<Rightarrow> bool" where
  "truthy v = (case v of None \<Rightarrow> False | Some s \<Rightarrow> s \<noteq> [])"

section \<open>Data model\<close>

type_synonym objectId = nat

text \<open>The five form fields are shared by the request body, by \<^verbatim>\<open>contactData\<close> and by the
  stored document, so they are the common root of the three records.\<close>

record form =
  name :: jsString
  email :: jsString
  phone :: jsString
  message :: jsString
  formType :: jsString

record request = form +
  recaptchaToken :: jsString

text \<open>\<^verbatim>\<open>contactData\<close> is what the handler hands to the email service: the form fields and
  the time of submission, in milliseconds since the epoch. A document of the \<^verbatim>\<open>Contact\<close>
  collection (\<^verbatim>\<open>contactSchema\<close>) has these fields too, its \<^verbatim>\<open>_id\<close> (\<open>oid\<close>) and its
  \<open>status\<close>, a string as in the schema.\<close>

record contactData = form +
  submittedAt :: int

record contact = contactData +
  oid :: objectId
  status :: jsString

text \<open>Functions that the repository calls but does not contain. From validator.js:
  \<^verbatim>\<open>isEmail\<close>, \<^verbatim>\<open>normalizeEmail\<close>, and \<open>charCount\<close>, the number of characters that
  \<^verbatim>\<open>isLength\<close> counts in a string. That number is not the string's length: validator.js
  counts a surrogate pair as one character, so a string of 600 emoji has 600 characters
  and the length 1200. From the language, \<^verbatim>\<open>String.prototype.toLowerCase\<close>. From
  Mongoose, the cast of a string to an ObjectId (\<open>None\<close> when it throws a CastError). They
  are parameters of the model.\<close>

record lib =
  isEmail :: "jsString \<Rightarrow> bool"
  normalizeEmail :: "jsString \<Rightarrow> jsString"
  charCount :: "jsString \<Rightarrow> nat"
  toLowerCase :: "jsString \<Rightarrow> jsString"
  castObjectId :: "jsString \<Rightarrow> objectId option"

section \<open>Validation middleware\<close>

text \<open>An entry of \<^verbatim>\<open>errors.array()\<close>: the field's path and the message.\<close>

type_synonym verror = "string \<times> string"

text \<open>\<^verbatim>\<open>isLength({min, max})\<close> bounds the number of characters, as validator.js counts
  them.\<close>

definition isLength :: "lib \<Rightarrow> nat \<Rightarrow> nat \<Rightarrow> jsString \<Rightarrow> bool" where
  "isLength l lo hi s = (lo \<le> charCount l s \<and> charCount l s \<le> hi)"

text \<open>\<^verbatim>\<open>/^[a-zA-Z\s]+$/\<close>\<close>

definition matchesName :: "jsString \<Rightarrow> bool" where
  "matchesName s = (s \<noteq> [] \<and> list_all (\<lambda>u. isLetter u \<or> isSpace u) s)"

text \<open>\<^verbatim>\<open>/^[0-9]{10}$/\<close>\<close>

definition matchesPhone :: "jsString \<Rightarrow> bool" where
  "matchesPhone s = (length s = 10 \<and> list_all isDigit s)"

definition formTypes :: "jsString list" where
  "formTypes = [js ''hero'', js ''final'']"

definition check :: "bool \<Rightarrow> string \<Rightarrow> string \<Rightarrow> verror list" where
  "check ok path msg = (if ok then [] else [(path, msg)])"

text \<open>\<^verbatim>\<open>validateContactForm\<close>: six chains run in order. A chain has no \<^verbatim>\<open>bail()\<close>, so each
  of its validators runs on the value as sanitized so far and adds its own error. The
  \<^verbatim>\<open>withMessage\<close> after \<^verbatim>\<open>normalizeEmail\<close> names the last validator, \<^verbatim>\<open>isEmail\<close>.\<close>

definition validateName :: "lib \<Rightarrow> jsString \<Rightarrow> verror list" where
  "validateName l v =
     check (isLength l 3 100 (trim v)) ''name'' ''Name must be between 2 and 100 characters'' @
     check (matchesName (trim v)) ''name'' ''Name can only contain letters and spaces''"

definition validateEmail :: "lib \<Rightarrow> jsString \<Rightarrow> verror list" where
  "validateEmail l v =
     check (isEmail l (trim v)) ''email'' ''Please provide a valid email address'' @
     check (isLength l 0 255 (normalizeEmail l (trim v))) ''email'' ''Email is too long''"

definition validatePhone :: "jsString \<Rightarrow> verror list" where
  "validatePhone v =
     check (matchesPhone (trim v)) ''phone'' ''Phone number must be exactly 10 digits''"

definition validateMessage :: "lib \<Rightarrow> jsString \<Rightarrow> verror list" where
  "validateMessage l v =
     check (isLength l 10 1000 (trim v)) ''message''
       ''Message must be between 10 and 1000 characters''"

definition validateFormType :: "jsString \<Rightarrow> verror list" where
  "validateFormType v = check (v \<in> set formTypes) ''formType'' ''Invalid form type''"

definition validateToken :: "jsString \<Rightarrow> verror list" where
  "validateToken v =
     check (v \<noteq> []) ''recaptchaToken'' ''Please complete the captcha verification''"

definition validationResult :: "lib \<Rightarrow> request \<Rightarrow> verror list" where
  "validationResult l r =
     validateName l (name r) @ validateEmail l (email r) @ validatePhone (phone r) @
     validateMessage l (message r) @ validateFormType (formType r) @
     validateToken (recaptchaToken r)"

text \<open>The sanitizers write back into \<^verbatim>\<open>req.body\<close>: this is the body the handler reads.\<close>

definition sanitized :: "lib \<Rightarrow> request \<Rightarrow> request" where
  "sanitized l r =
     r\<lparr>name := trim (name r), email := normalizeEmail l (trim (email r)),
       phone := trim (phone r), message := trim (message r)\<rparr>"

section \<open>Environment and effects\<close>

text \<open>\<^verbatim>\<open>process.env\<close>, as far as the handlers read it.\<close>

record env =
  NODE_ENV :: "jsString option"
  RECAPTCHA_SECRET_KEY :: "jsString option"
  SMTP_USER :: "jsString option"
  SMTP_PASS :: "jsString option"
  ADMIN_EMAIL :: "jsString option"

text \<open>An awaited call either yields a value or throws. The text of a thrown error comes
  from the library that throws it and is not modelled; neither is the optional
  \<^verbatim>\<open>error\<close> field that a 500 response carries in development.\<close>

datatype 'a promise = Fulfilled 'a | Rejected

datatype db_op = FindOne | Save | Find | CountDocuments | FindByIdAndUpdate

text \<open>What the outside world does during one request: the verdict of the reCAPTCHA service
  for a secret and a token (the truthiness of \<^verbatim>\<open>response.data.success\<close>, or a failed call),
  which database operations fail at the backend, the two readings of \<^verbatim>\<open>Date.now()\<close> (for
  the duplicate window and for the \<^verbatim>\<open>submittedAt\<close> default), the \<^verbatim>\<open>_id\<close> that the driver
  generates for a new document, whether \<^verbatim>\<open>nodemailer.createTransport\<close> throws, and how the
  two \<^verbatim>\<open>sendMail\<close> calls end.\<close>

record world =
  siteverify :: "jsString \<Rightarrow> jsString \<Rightarrow> bool promise"
  dbThrows :: "db_op \<Rightarrow> bool"
  nowCheck :: int
  nowCreate :: int
  newObjectId :: objectId
  createTransportThrows :: bool
  adminMail :: "unit promise"
  replyMail :: "unit promise"

text \<open>The effects a handler has besides its response: the request to the reCAPTCHA
  service (secret, token), a database operation sent to the backend, a message handed to
  the SMTP transport (recipient), and a \<^verbatim>\<open>console.error\<close> line (its fixed first argument).
  \<^verbatim>\<open>console.log\<close> lines are left out.\<close>

datatype event =
    HttpPost jsString jsString
  | Db db_op
  | SendMail jsString
  | ConsoleError string

datatype body =
    Failure string
  | ValidationFailure string "verror list"
  | Created string objectId int jsString
  | Listing "contact list" int int int int
  | Updated contact

text \<open>\<^verbatim>\<open>Failure m\<close> is \<^verbatim>\<open>{success: false, message: m}\<close>; \<^verbatim>\<open>ValidationFailure m es\<close> adds
  \<^verbatim>\<open>errors: es\<close>; \<^verbatim>\<open>Created m i t f\<close> is \<^verbatim>\<open>{success: true, message: m, data: {id: i,
  submittedAt: t, formType: f}}\<close>; \<^verbatim>\<open>Listing cs p l t n\<close> is \<^verbatim>\<open>{success: true, data: cs,
  pagination: {page: p, limit: l, total: t, pages: n}}\<close>; \<^verbatim>\<open>Updated c\<close> is
  \<^verbatim>\<open>{success: true, data: c}\<close>.\<close>

record response =
  httpStatus :: nat
  body :: body

definition respond :: "nat \<Rightarrow> body \<Rightarrow> response" where
  "respond n b = \<lparr>httpStatus = n, body = b\<rparr>"

section \<open>reCAPTCHA verification\<close>

definition bypassTokens :: "jsString list" where
  "bypassTokens = [js ''development_token'', js ''fallback_token'', js ''test_token'']"

text \<open>\<^verbatim>\<open>verifyRecaptcha\<close>: the result and the effects. The \<^verbatim>\<open>catch\<close> branch is the last
  line.\<close>

definition verifyRecaptcha :: "env \<Rightarrow> world \<Rightarrow> jsString \<Rightarrow> bool \<times> event list" where
  "verifyRecaptcha e w token =
     (if NODE_ENV e = Some (js ''development'') then (True, [])
      else if token \<in> set bypassTokens then (True, [])
      else (case RECAPTCHA_SECRET_KEY e of
          None \<Rightarrow> (True, [])
        | Some secret \<Rightarrow>
            if secret = [] then (True, [])
            else (case siteverify w secret token of
                Fulfilled success \<Rightarrow> (success, [HttpPost secret token])
              | Rejected \<Rightarrow>
                  (NODE_ENV e = Some (js ''development''),
                   [HttpPost secret token, ConsoleError ''reCAPTCHA verification error:'']))))"

section \<open>The Contact collection\<close>

type_synonym collection = "contact list"

definition statuses :: "jsString list" where
  "statuses = [js ''new'', js ''contacted'', js ''converted'']"

text \<open>\<^verbatim>\<open>new Contact({name, email, phone, message, formType})\<close>: the schema's setters
  (\<^verbatim>\<open>trim\<close>, then \<^verbatim>\<open>lowercase\<close> on the email, in the order the schema declares them) run
  on the values, and the defaults fill \<^verbatim>\<open>submittedAt\<close> (\<^verbatim>\<open>Date.now\<close>) and \<^verbatim>\<open>status\<close>.\<close>

definition newContact :: "lib \<Rightarrow> world \<Rightarrow> request \<Rightarrow> contact" where
  "newContact l w b =
     \<lparr>name = trim (name b), email = toLowerCase l (trim (email b)), phone = trim (phone b),
      message = trim (message b), formType = formType b, submittedAt = nowCreate w,
      oid = newObjectId w, status = js ''new''\<rparr>"

text \<open>The schema's validators, which \<^verbatim>\<open>save()\<close> runs before it writes: \<^verbatim>\<open>required\<close>,
  \<^verbatim>\<open>maxlength\<close>, \<^verbatim>\<open>match\<close> and \<^verbatim>\<open>enum\<close>. \<^verbatim>\<open>maxlength\<close> bounds the string's length
  in code units, not the number of characters that the middleware's \<^verbatim>\<open>isLength\<close> counts.\<close>

definition schemaValid :: "contact \<Rightarrow> bool" where
  "schemaValid c =
     (name c \<noteq> [] \<and> length (name c) \<le> 100 \<and>
      email c \<noteq> [] \<and> length (email c) \<le> 255 \<and>
      phone c \<noteq> [] \<and> matchesPhone (phone c) \<and>
      message c \<noteq> [] \<and> length (message c) \<le> 1000 \<and>
      formType c \<in> set formTypes \<and>
      status c \<in> set statuses)"

text \<open>\<^verbatim>\<open>newContact.save()\<close>: rejected when a validator fails (nothing is sent to the
  backend) or when the backend fails; otherwise the document is added.\<close>

definition save :: "world \<Rightarrow> collection \<Rightarrow> contact \<Rightarrow> collection promise \<times> event list" where
  "save w db c =
     (if \<not> schemaValid c then (Rejected, [])
      else if dbThrows w Save then (Rejected, [Db Save])
      else (Fulfilled (db @ [c]), [Db Save]))"

text \<open>The filter of the duplicate check,
  \<^verbatim>\<open>{$or: [{email}, {phone}], submittedAt: {$gte: oneHourAgo}}\<close>. Mongoose casts the values
  of a filter with the schema's setters, as it does for a new document.\<close>

definition duplicateFilter :: "lib \<Rightarrow> jsString \<Rightarrow> jsString \<Rightarrow> int \<Rightarrow> contact \<Rightarrow> bool" where
  "duplicateFilter l em ph oneHourAgo c =
     ((email c = toLowerCase l (trim em) \<or> phone c = trim ph) \<and> oneHourAgo \<le> submittedAt c)"

definition findOne ::
  "world \<Rightarrow> collection \<Rightarrow> (contact \<Rightarrow> bool) \<Rightarrow> contact option promise \<times> event list" where
  "findOne w db flt =
     (if dbThrows w FindOne then (Rejected, [Db FindOne])
      else (Fulfilled (find flt db), [Db FindOne]))"

text \<open>The first document that matches is replaced by its update and returned
  (\<^verbatim>\<open>{new: true}\<close>); without a match the collection is as before and the result is null.\<close>

fun updateFirst ::
  "(contact \<Rightarrow> bool) \<Rightarrow> (contact \<Rightarrow> contact) \<Rightarrow> collection \<Rightarrow> contact option \<times> collection" where
  "updateFirst p f [] = (None, [])"
| "updateFirst p f (c # cs) =
     (if p c then (Some (f c), f c # cs)
      else (case updateFirst p f cs of (r, cs') \<Rightarrow> (r, c # cs')))"

text \<open>\<^verbatim>\<open>Contact.findByIdAndUpdate(id, {status}, {new: true})\<close>: the id is cast first, and a
  string that is no ObjectId makes the call throw. An update runs no validators.\<close>

definition findByIdAndUpdate ::
  "lib \<Rightarrow> world \<Rightarrow> collection \<Rightarrow> jsString \<Rightarrow> jsString \<Rightarrow>
     (contact option \<times> collection) promise \<times> event list" where
  "findByIdAndUpdate l w db i st =
     (case castObjectId l i of
        None \<Rightarrow> (Rejected, [])
      | Some k \<Rightarrow>
          if dbThrows w FindByIdAndUpdate then (Rejected, [Db FindByIdAndUpdate])
          else (Fulfilled (updateFirst (\<lambda>c. oid c = k) (\<lambda>c. c\<lparr>status := st\<rparr>) db),
                [Db FindByIdAndUpdate]))"

section \<open>Email service\<close>

text \<open>The singleton \<^verbatim>\<open>EmailService\<close>: \<open>transporter\<close> is true when \<^verbatim>\<open>this.transporter\<close> is
  not null.\<close>

record emailService =
  transporter :: bool

definition smtpConfigured :: "env \<Rightarrow> bool" where
  "smtpConfigured e = (truthy (SMTP_USER e) \<and> truthy (SMTP_PASS e))"

definition initializeTransporter ::
  "env \<Rightarrow> world \<Rightarrow> emailService \<Rightarrow> emailService \<times> event list" where
  "initializeTransporter e w s =
     (if smtpConfigured e then
        (if createTransportThrows w
         then (s\<lparr>transporter := False\<rparr>, [ConsoleError '' Error initializing email service:''])
         else (s\<lparr>transporter := True\<rparr>, []))
      else (s\<lparr>transporter := False\<rparr>, []))"

text \<open>The constructor, run once when the module is loaded.\<close>

definition EmailService :: "env \<Rightarrow> world \<Rightarrow> emailService \<times> event list" where
  "EmailService e w = initializeTransporter e w \<lparr>transporter = False\<rparr>"

definition ensureTransporter ::
  "env \<Rightarrow> world \<Rightarrow> emailService \<Rightarrow> bool \<times> emailService \<times> event list" where
  "ensureTransporter e w s =
     (case (if \<not> transporter s \<and> smtpConfigured e then initializeTransporter e w s
            else (s, [])) of
        (s', ev) \<Rightarrow> (transporter s', s', ev))"

definition adminRecipient :: "env \<Rightarrow> jsString" where
  "adminRecipient e =
     (case ADMIN_EMAIL e of
        None \<Rightarrow> js ''pradum@delhidigital.co''
      | Some a \<Rightarrow> if a = [] then js ''pradum@delhidigital.co'' else a)"

text \<open>\<^verbatim>\<open>sendContactNotification\<close> and \<^verbatim>\<open>sendAutoReply\<close>: the promise they return, the
  service afterwards, and the effects. Without a transporter they return at once; a
  failed \<^verbatim>\<open>sendMail\<close> is logged and thrown again.\<close>

definition sendContactNotification ::
  "env \<Rightarrow> world \<Rightarrow> emailService \<Rightarrow> contactData \<Rightarrow> unit promise \<times> emailService \<times> event list" where
  "sendContactNotification e w s d =
     (case ensureTransporter e w s of
        (ok, s', ev) \<Rightarrow>
          if \<not> ok then (Fulfilled (), s', ev)
          else (case adminMail w of
              Fulfilled u \<Rightarrow> (Fulfilled (), s', ev @ [SendMail (adminRecipient e)])
            | Rejected \<Rightarrow>
                (Rejected, s',
                 ev @ [SendMail (adminRecipient e),
                       ConsoleError '' Error sending contact notification email:''])))"

definition sendAutoReply ::
  "env \<Rightarrow> world \<Rightarrow> emailService \<Rightarrow> contactData \<Rightarrow> unit promise \<times> emailService \<times> event list" where
  "sendAutoReply e w s d =
     (case ensureTransporter e w s of
        (ok, s', ev) \<Rightarrow>
          if \<not> ok then (Fulfilled (), s', ev)
          else (case replyMail w of
              Fulfilled u \<Rightarrow> (Fulfilled (), s', ev @ [SendMail (email d)])
            | Rejected \<Rightarrow>
                (Rejected, s',
                 ev @ [SendMail (email d), ConsoleError '' Error sending auto-reply email:''])))"

text \<open>\<^verbatim>\<open>promise.catch(handler)\<close> where the handler logs: the effects of a rejection.\<close>

definition catchLog :: "unit promise \<Rightarrow> string \<Rightarrow> event list" where
  "catchLog p line = (case p of Fulfilled u \<Rightarrow> [] | Rejected \<Rightarrow> [ConsoleError line])"

text \<open>The handler's notification block. Neither promise is awaited. Both calls run up to
  their \<^verbatim>\<open>sendMail\<close> before either promise settles; the trace lists each call's effects
  with its own, later, \<^verbatim>\<open>catch\<close> line.\<close>

definition sendEmails ::
  "env \<Rightarrow> world \<Rightarrow> emailService \<Rightarrow> contactData \<Rightarrow> emailService \<times> event list" where
  "sendEmails e w s d =
     (if smtpConfigured e then
        (case sendContactNotification e w s d of
           (p1, s1, ev1) \<Rightarrow>
             (case sendAutoReply e w s1 d of
                (p2, s2, ev2) \<Rightarrow>
                  (s2, ev1 @ catchLog p1 ''Failed to send admin notification:'' @
                       ev2 @ catchLog p2 ''Failed to send auto-reply:'')))
      else (s, []))"

section \<open>POST /api/contact\<close>

record outcome =
  response :: response
  contacts :: collection
  trace :: "event list"

record post_outcome = outcome +
  service :: emailService

definition post_result ::
  "response \<Rightarrow> collection \<Rightarrow> emailService \<Rightarrow> event list \<Rightarrow> post_outcome" where
  "post_result r db s ev = \<lparr>response = r, contacts = db, trace = ev, service = s\<rparr>"

definition serverError :: response where
  "serverError =
     respond 500
       (Failure ''An error occurred while processing your request. Please try again later.'')"

text \<open>The validation middleware and the handler of \<^verbatim>\<open>POST /api/contact\<close>. The rate limiter
  in front of them is not part of the model. The body of the \<^verbatim>\<open>catch\<close> is
  \<open>serverError\<close> with its \<^verbatim>\<open>console.error\<close> line.\<close>

definition post_contact ::
  "lib \<Rightarrow> env \<Rightarrow> world \<Rightarrow> emailService \<Rightarrow> collection \<Rightarrow> request \<Rightarrow> post_outcome" where
  "post_contact l e w s db req =
     (let errors = validationResult l req; b = sanitized l req in
      if errors \<noteq> [] then
        post_result (respond 400 (ValidationFailure ''Validation failed'' errors)) db s []
      else
        (case verifyRecaptcha e w (recaptchaToken b) of
           (isRecaptchaValid, ev1) \<Rightarrow>
             if \<not> isRecaptchaValid then
               post_result
                 (respond 400 (Failure ''Captcha verification failed. Please try again.''))
                 db s ev1
             else
               (case findOne w db
                       (duplicateFilter l (email b) (phone b) (nowCheck w - 60 * 60 * 1000)) of
                  (Rejected, ev2) \<Rightarrow>
                    post_result serverError db s
                      (ev1 @ ev2 @ [ConsoleError ''Contact form submission error:''])
                | (Fulfilled (Some existingSubmission), ev2) \<Rightarrow>
                    post_result
                      (respond 429
                         (Failure (''A submission with this email or phone number was already ''
                            @ ''received recently. Please wait before submitting again.'')))
                      db s (ev1 @ ev2)
                | (Fulfilled None, ev2) \<Rightarrow>
                    (case save w db (newContact l w b) of
                       (Rejected, ev3) \<Rightarrow>
                         post_result serverError db s
                           (ev1 @ ev2 @ ev3 @ [ConsoleError ''Contact form submission error:''])
                     | (Fulfilled db', ev3) \<Rightarrow>
                         (case sendEmails e w s
                                 \<lparr>name = name b, email = email b, phone = phone b,
                                  message = message b, formType = formType b,
                                  submittedAt = submittedAt (newContact l w b)\<rparr> of
                            (s', ev4) \<Rightarrow>
                              post_result
                                (respond 201
                                   (Created
                                      ''Thank you for your inquiry! We will contact you within 24 hours.''
                                      (oid (newContact l w b)) (submittedAt (newContact l w b))
                                      (formType (newContact l w b))))
                                db' s' (ev1 @ ev2 @ ev3 @ ev4))))))"

section \<open>GET /api/contacts\<close>

text \<open>A query parameter after \<^verbatim>\<open>Number.parseInt\<close> is an integer or NaN (\<open>None\<close>);
  \<^verbatim>\<open>Number.parseInt(x) || d\<close> replaces NaN and 0 by the default.\<close>

definition orDefault :: "int option \<Rightarrow> int \<Rightarrow> int" where
  "orDefault v d = (case v of None \<Rightarrow> d | Some n \<Rightarrow> if n = 0 then d else n)"

text \<open>\<^verbatim>\<open>Math.ceil(total / limit)\<close> for integers, \<open>limit\<close> not 0.\<close>

definition ceilDiv :: "int \<Rightarrow> int \<Rightarrow> int" where
  "ceilDiv n limit = - ((- n) div limit)"

text \<open>\<^verbatim>\<open>Contact.find().sort({submittedAt: -1}).skip(skip).limit(limit)\<close>. The server
  refuses a negative skip (the call throws); the driver sends a negative limit as its
  absolute value, for a single batch. Documents with equal \<^verbatim>\<open>submittedAt\<close> come in the order a stable sort
  leaves them in; the server promises no order among them.\<close>

definition findPage ::
  "world \<Rightarrow> collection \<Rightarrow> int \<Rightarrow> int \<Rightarrow> contact list promise \<times> event list" where
  "findPage w db skip limit =
     (if dbThrows w Find \<or> skip < 0 then (Rejected, [Db Find])
      else (Fulfilled (take (nat \<bar>limit\<bar>) (drop (nat skip)
              (sort_key (\<lambda>c. - submittedAt c) db))), [Db Find]))"

definition countDocuments :: "world \<Rightarrow> collection \<Rightarrow> int promise \<times> event list" where
  "countDocuments w db =
     (if dbThrows w CountDocuments then (Rejected, [Db CountDocuments])
      else (Fulfilled (int (length db)), [Db CountDocuments]))"

definition handler_result :: "response \<Rightarrow> collection \<Rightarrow> event list \<Rightarrow> outcome" where
  "handler_result r db ev = \<lparr>response = r, contacts = db, trace = ev\<rparr>"

definition get_contacts :: "world \<Rightarrow> collection \<Rightarrow> int option \<Rightarrow> int option \<Rightarrow> outcome" where
  "get_contacts w db pageParam limitParam =
     (let page = orDefault pageParam 1;
          limit = orDefault limitParam 20;
          skip = (page - 1) * limit
      in case findPage w db skip limit of
           (Rejected, ev1) \<Rightarrow>
             handler_result (respond 500 (Failure ''Error fetching contacts'')) db
               (ev1 @ [ConsoleError ''Error fetching contacts:''])
         | (Fulfilled cs, ev1) \<Rightarrow>
             (case countDocuments w db of
                (Rejected, ev2) \<Rightarrow>
                  handler_result (respond 500 (Failure ''Error fetching contacts'')) db
                    (ev1 @ ev2 @ [ConsoleError ''Error fetching contacts:''])
              | (Fulfilled n, ev2) \<Rightarrow>
                  handler_result
                    (respond 200 (Listing cs page limit n (ceilDiv n limit)))
                    db (ev1 @ ev2)))"

section \<open>PATCH /api/contacts/:id/status\<close>

definition patch_status ::
  "lib \<Rightarrow> world \<Rightarrow> collection \<Rightarrow> jsString \<Rightarrow> jsString \<Rightarrow> outcome" where
  "patch_status l w db i st =
     (if st \<notin> set statuses then
        handler_result (respond 400 (Failure ''Invalid status value'')) db []
      else
        (case findByIdAndUpdate l w db i st of
           (Rejected, ev) \<Rightarrow>
             handler_result (respond 500 (Failure ''Error updating contact status'')) db
               (ev @ [ConsoleError ''Error updating contact status:''])
         | (Fulfilled (None, db'), ev) \<Rightarrow>
             handler_result (respond 404 (Failure ''Contact not found'')) db' ev
         | (Fulfilled (Some c, db'), ev) \<Rightarrow>
             handler_result (respond 200 (Updated c)) db' ev))"

section \<open>Reachable collections\<close>

text \<open>The collection starts empty and changes only through the three handlers, whatever
  the request, the environment and the world are.\<close>

inductive reachable :: "collection \<Rightarrow> bool" where
  start: "reachable []"
| post: "reachable db \<Longrightarrow> reachable (contacts (post_contact l e w s db req))"
| list: "reachable db \<Longrightarrow> reachable (contacts (get_contacts w db p n))"
| patch: "reachable db \<Longrightarrow> reachable (contacts (patch_status l w db i st))"

section \<open>Concrete inputs\<close>

text \<open>A stand-in for the library functions, to run the model on concrete requests: an email
  is a string with an \<^verbatim>\<open>@\<close>; normalizing and lowercasing move the letters A to Z and the
  Latin-1 capitals U+00C0 to U+00DE (without the multiplication sign U+00D7) up by 32, as
  \<^verbatim>\<open>toLowerCase\<close> does with them; the characters of a string are its code units less
  one for each surrogate pair, found from left to right as the global regular expression
  \<^verbatim>\<open>/[\uD800-\uDBFF][\uDC00-\uDFFF]/g\<close> of validator.js finds them; and an ObjectId is
  written as 24 hexadecimal digits.\<close>

definition lowerUnit :: "nat \<Rightarrow> nat" where
  "lowerUnit u =
     (if (65 \<le> u \<and> u \<le> 90) \<or> (192 \<le> u \<and> u \<le> 222 \<and> u \<noteq> 215) then u + 32 else u)"

fun surrogatePairs :: "jsString \<Rightarrow> nat" where
  "surrogatePairs (u # v # s) =
     (if 55296 \<le> u \<and> u \<le> 56319 \<and> 56320 \<le> v \<and> v \<le> 57343
      then Suc (surrogatePairs s) else surrogatePairs (v # s))"
| "surrogatePairs s = 0"

definition hexValue :: "nat \<Rightarrow> nat option" where
  "hexValue u =
     (if isDigit u then Some (u - 48)
      else if 97 \<le> u \<and> u \<le> 102 then Some (u - 87)
      else if 65 \<le> u \<and> u \<le> 70 then Some (u - 55)
      else None)"

fun parseHex :: "nat \<Rightarrow> jsString \<Rightarrow> nat option" where
  "parseHex n [] = Some n"
| "parseHex n (u # s) =
     (case hexValue u of None \<Rightarrow> None | Some d \<Rightarrow> parseHex (16 * n + d) s)"

definition sampleLib :: lib where
  "sampleLib =
     \<lparr>isEmail = (\<lambda>s. 64 \<in> set s),
      normalizeEmail = map lowerUnit,
      charCount = (\<lambda>s. length s - surrogatePairs s),
      toLowerCase = map lowerUnit,
      castObjectId = (\<lambda>s. if length s = 24 then parseHex 0 s else None)\<rparr>"

definition janeDoe :: request where
  "janeDoe =
     \<lparr>name = js ''Jane Doe'', email = js ''JANE@X.COM'', phone = js ''9876543210'',
      message = js ''Interested in your product'', formType = js ''hero'',
      recaptchaToken = js ''test_token''\<rparr>"

definition production :: env where
  "production =
     \<lparr>NODE_ENV = Some (js ''production''), RECAPTCHA_SECRET_KEY = Some (js ''secret''),
      SMTP_USER = Some (js ''mailer@example.com''), SMTP_PASS = Some (js ''password''),
      ADMIN_EMAIL = None\<rparr>"

text \<open>A world in which the reCAPTCHA service accepts the token \<^verbatim>\<open>good\<close> only, the database
  and the mail transport work, and the clock reads 2023-11-14T22:13:20Z.\<close>

definition quietWorld :: world where
  "quietWorld =
     \<lparr>siteverify = (\<lambda>secret token. Fulfilled (token = js ''good'')),
      dbThrows = (\<lambda>op. False),
      nowCheck = 1700000000000, nowCreate = 1700000000005,
      newObjectId = 1,
      createTransportThrows = False,
      adminMail = Fulfilled (), replyMail = Fulfilled ()\<rparr>"

definition janeStored :: contact where
  "janeStored =
     \<lparr>name = js ''Jane Doe'', email = js ''jane@x.com'', phone = js ''9876543210'',
      message = js ''Interested in your product'', formType = js ''hero'',
      submittedAt = 1700000000005, oid = 1, status = js ''new''\<rparr>"

text \<open>A request with a name that is too short and has a digit, a phone number of five
  digits and no token.\<close>

definition badRequest :: request where
  "badRequest =
     \<lparr>name = js ''J1'', email = js ''jane@x.com'', phone = js ''12345'',
      message = js ''Interested in your product'', formType = js ''hero'',
      recaptchaToken = []\<rparr>"

text \<open>A message of \<open>n\<close> emoji, each the surrogate pair of U+1F600, and Jane Doe's request
  with 600 of them as its message: 600 characters for the middleware, 1200 code units for
  the schema.\<close>

definition emoji :: "nat \<Rightarrow> jsString" where
  "emoji n = concat (replicate n [55357, 56832])"

definition emojiRequest :: request where
  "emojiRequest = janeDoe\<lparr>message := emoji 600\<rparr>"

definition development :: env where
  "development = production\<lparr>NODE_ENV := Some (js ''development'')\<rparr>"

definition noSecret :: env where
  "noSecret = production\<lparr>RECAPTCHA_SECRET_KEY := None\<rparr>"

text \<open>A world in which every request to the reCAPTCHA service fails.\<close>

definition unreachableService :: world where
  "unreachableService = quietWorld\<lparr>siteverify := (\<lambda>secret token. Rejected)\<rparr>"



text \<open>A world in which both \<^verbatim>\<open>sendMail\<close> calls fail, and an environment without SMTP
  credentials.\<close>

definition mailDown :: world where
  "mailDown = quietWorld\<lparr>adminMail := Rejected, replyMail := Rejected\<rparr>"

definition noSmtp :: env where
  "noSmtp = production\<lparr>SMTP_USER := None, SMTP_PASS := None\<rparr>"

definition secondContact :: contact where
  "secondContact =
     \<lparr>name = js ''Ravi Kumar'', email = js ''ravi@example.com'', phone = js ''9123456780'',
      message = js ''Please call me back'', formType = js ''final'',
      submittedAt = 1700000500000, oid = 2, status = js ''new''\<rparr>"

section \<open>Strings: trimming\<close>

lemma strip_fixed:
  assumes "xs = [] \<or> (\<not> P (hd xs) \<and> \<not> P (last xs))"
  shows "rev (dropWhile P (rev (dropWhile P xs))) = xs"
  by (metis rev_swap assms rev_is_Nil_conv hd_rev dropWhile_eq_self_iff)

lemma strip_ends:
  "rev (dropWhile P (rev (dropWhile P xs))) = [] \<or>
   (\<not> P (hd (rev (dropWhile P (rev (dropWhile P xs))))) \<and>
    \<not> P (last (rev (dropWhile P (rev (dropWhile P xs))))))"
  by (metis (mono_tags, lifting) Nil_is_rev_conv dropWhile.simps(1)
    dropWhile_eq_Nil_conv dropWhile_last hd_dropWhile hd_rev last_rev)

lemma trim_idem: "trim (trim s) = trim s"
  unfolding trim_def by (rule strip_fixed) (rule strip_ends)

lemma length_trim: "length (trim s) \<le> length s"
proof -
  have "length (trim s) \<le> length (dropWhile isSpace s)"
    unfolding trim_def using length_dropWhile_le [of isSpace "rev (dropWhile isSpace s)"]
    by simp
  also have "\<dots> \<le> length s"
    by (rule length_dropWhile_le)
  finally show ?thesis .
qed

text \<open>The definitions that running the model on a concrete input unfolds.\<close>

lemmas validators =
  validationResult_def validateName_def validateEmail_def validatePhone_def
  validateMessage_def validateFormType_def validateToken_def check_def isLength_def
  matchesName_def matchesPhone_def formTypes_def trim_def isSpace_def isLetter_def
  isDigit_def js_def

lemmas stand_in = sampleLib_def lowerUnit_def hexValue_def

section \<open>The branches of the submission handler\<close>

lemma recaptchaToken_sanitized: "recaptchaToken (sanitized l r) = recaptchaToken r"
  by (simp add: sanitized_def)

lemma formType_sanitized: "formType (sanitized l r) = formType r"
  by (simp add: sanitized_def)

lemma check_Nil: "check ok p m = [] \<longleftrightarrow> ok"
  by (simp add: check_def)

lemma validationResult_Nil:
  "validationResult l r = [] \<longleftrightarrow>
     isLength l 3 100 (trim (name r)) \<and> matchesName (trim (name r)) \<and>
     isEmail l (trim (email r)) \<and> isLength l 0 255 (normalizeEmail l (trim (email r))) \<and>
     matchesPhone (trim (phone r)) \<and> isLength l 10 1000 (trim (message r)) \<and>
     formType r \<in> set formTypes \<and> recaptchaToken r \<noteq> []"
  by (simp add: validationResult_def validateName_def validateEmail_def validatePhone_def
      validateMessage_def validateFormType_def validateToken_def check_Nil)

lemma post_contact_invalid:
  "validationResult l req \<noteq> [] \<Longrightarrow>
   post_contact l e w s db req =
     post_result
       (respond 400 (ValidationFailure ''Validation failed'' (validationResult l req))) db s []"
  by (simp add: post_contact_def Let_def)

lemma find_duplicate: "(find p db = None) = (\<not> list_ex p db)"
  by (auto simp add: find_None_iff list_ex_iff)

lemma post_contact_captcha:
  assumes "validationResult l req = []" "\<not> fst (verifyRecaptcha e w (recaptchaToken req))"
  shows "post_contact l e w s db req =
     post_result (respond 400 (Failure ''Captcha verification failed. Please try again.''))
       db s (snd (verifyRecaptcha e w (recaptchaToken req)))"
proof -
  obtain ev where "verifyRecaptcha e w (recaptchaToken req) = (False, ev)"
    using assms(2) by (cases "verifyRecaptcha e w (recaptchaToken req)") auto
  then show ?thesis
    using assms(1) by (simp add: post_contact_def Let_def recaptchaToken_sanitized)
qed

lemma post_contact_duplicate:
  assumes "validationResult l req = []" "fst (verifyRecaptcha e w (recaptchaToken req))"
    "\<not> dbThrows w FindOne"
    "list_ex (duplicateFilter l (email (sanitized l req)) (phone (sanitized l req))
       (nowCheck w - 3600000)) db"
  shows "post_contact l e w s db req =
     post_result
       (respond 429
          (Failure (''A submission with this email or phone number was already ''
             @ ''received recently. Please wait before submitting again.'')))
       db s (snd (verifyRecaptcha e w (recaptchaToken req)) @ [Db FindOne])"
proof -
  let ?flt = "duplicateFilter l (email (sanitized l req)) (phone (sanitized l req))
    (nowCheck w - 3600000)"
  obtain ev where vr: "verifyRecaptcha e w (recaptchaToken req) = (True, ev)"
    using assms(2) by (cases "verifyRecaptcha e w (recaptchaToken req)") auto
  obtain c where "find ?flt db = Some c"
    using assms(4) find_duplicate [of ?flt db] by (cases "find ?flt db") auto
  then show ?thesis
    using assms(1,3) vr
    by (simp add: post_contact_def Let_def recaptchaToken_sanitized findOne_def)
qed

lemma post_contact_created:
  assumes "validationResult l req = []" "fst (verifyRecaptcha e w (recaptchaToken req))"
    "\<not> dbThrows w FindOne"
    "\<not> list_ex (duplicateFilter l (email (sanitized l req)) (phone (sanitized l req))
       (nowCheck w - 3600000)) db"
    "schemaValid (newContact l w (sanitized l req))" "\<not> dbThrows w Save"
  shows "post_contact l e w s db req =
     post_result
       (respond 201
          (Created ''Thank you for your inquiry! We will contact you within 24 hours.''
             (newObjectId w) (nowCreate w) (formType req)))
       (db @ [newContact l w (sanitized l req)])
       (fst (sendEmails e w s
          \<lparr>name = name (sanitized l req), email = email (sanitized l req),
           phone = phone (sanitized l req), message = message (sanitized l req),
           formType = formType req, submittedAt = nowCreate w\<rparr>))
       (snd (verifyRecaptcha e w (recaptchaToken req)) @ [Db FindOne, Db Save] @
        snd (sendEmails e w s
          \<lparr>name = name (sanitized l req), email = email (sanitized l req),
           phone = phone (sanitized l req), message = message (sanitized l req),
           formType = formType req, submittedAt = nowCreate w\<rparr>))"
proof -
  note sv = assms(5)
  have nc: "oid (newContact l w b) = newObjectId w" "submittedAt (newContact l w b) = nowCreate w"
    "formType (newContact l w b) = formType b" for b
    by (simp_all add: newContact_def)
  have fo: "find (duplicateFilter l (email (sanitized l req)) (phone (sanitized l req))
      (nowCheck w - 3600000)) db = None"
    using assms(4) by (simp add: find_duplicate)
  obtain ev where vr: "verifyRecaptcha e w (recaptchaToken req) = (True, ev)"
    using assms(2) by (cases "verifyRecaptcha e w (recaptchaToken req)") auto
  show ?thesis
    using assms(1,3,6) sv fo vr
    by (simp add: post_contact_def Let_def recaptchaToken_sanitized formType_sanitized
        findOne_def save_def nc split: prod.splits)
qed

lemma post_result_sel:
  "response (post_result r db s ev) = r" "contacts (post_result r db s ev) = db"
  "service (post_result r db s ev) = s" "trace (post_result r db s ev) = ev"
  by (simp_all add: post_result_def)

section \<open>Validation gate\<close>

lemma validationResult_mem:
  "((''name'', ''Name must be between 2 and 100 characters'') \<in> set (validationResult l req))
      = (\<not> isLength l 3 100 (trim (name req)))"
  "((''name'', ''Name can only contain letters and spaces'') \<in> set (validationResult l req))
      = (\<not> matchesName (trim (name req)))"
  "((''email'', ''Please provide a valid email address'') \<in> set (validationResult l req))
      = (\<not> isEmail l (trim (email req)))"
  "((''email'', ''Email is too long'') \<in> set (validationResult l req))
      = (\<not> isLength l 0 255 (normalizeEmail l (trim (email req))))"
  "((''phone'', ''Phone number must be exactly 10 digits'') \<in> set (validationResult l req))
      = (\<not> matchesPhone (trim (phone req)))"
  "((''message'', ''Message must be between 10 and 1000 characters'')
       \<in> set (validationResult l req))
      = (\<not> isLength l 10 1000 (trim (message req)))"
  "((''formType'', ''Invalid form type'') \<in> set (validationResult l req))
      = (formType req \<notin> set formTypes)"
  "((''recaptchaToken'', ''Please complete the captcha verification'')
       \<in> set (validationResult l req))
      = (recaptchaToken req = [])"
  by (simp_all add: validationResult_def validateName_def validateEmail_def validatePhone_def
      validateMessage_def validateFormType_def validateToken_def check_def)

text \<open>
  C2. When a field of the request breaks its rule (the trimmed name is not 3 to 100
  characters long or is not made of letters and spaces, the trimmed email is no email or
  its normal form is longer than 255, the trimmed phone is not ten digits, the trimmed
  message is not 10 to 1000 characters long, the form type is neither \<^verbatim>\<open>hero\<close> nor
  \<^verbatim>\<open>final\<close>, or the token is empty), the answer is 400 with the message
  \<^verbatim>\<open>Validation failed\<close> and the list of errors. That list holds the error of a rule exactly
  when the rule is broken, so every violation is reported and not the first one only.
  The collection and the email service are as before, the handler has no effect (no
  request to the reCAPTCHA service, no database operation, no mail), and the outcome is
  the same in every environment and world.
\<close>

theorem validation_failure_collects_all_errors:
  assumes "\<not> isLength l 3 100 (trim (name req)) \<or> \<not> matchesName (trim (name req)) \<or>
           \<not> isEmail l (trim (email req)) \<or>
           \<not> isLength l 0 255 (normalizeEmail l (trim (email req))) \<or>
           \<not> matchesPhone (trim (phone req)) \<or> \<not> isLength l 10 1000 (trim (message req)) \<or>
           formType req \<notin> set formTypes \<or> recaptchaToken req = []"
  shows "response (post_contact l e w s db req) =
           respond 400 (ValidationFailure ''Validation failed'' (validationResult l req)) \<and>
         contacts (post_contact l e w s db req) = db \<and>
         service (post_contact l e w s db req) = s \<and>
         trace (post_contact l e w s db req) = [] \<and>
         (\<forall>e' w'. post_contact l e' w' s db req = post_contact l e w s db req) \<and>
         ((''name'', ''Name must be between 2 and 100 characters'')
              \<in> set (validationResult l req))
            = (\<not> isLength l 3 100 (trim (name req))) \<and>
         ((''name'', ''Name can only contain letters and spaces'')
              \<in> set (validationResult l req))
            = (\<not> matchesName (trim (name req))) \<and>
         ((''email'', ''Please provide a valid email address'')
              \<in> set (validationResult l req))
            = (\<not> isEmail l (trim (email req))) \<and>
         ((''email'', ''Email is too long'') \<in> set (validationResult l req))
            = (\<not> isLength l 0 255 (normalizeEmail l (trim (email req)))) \<and>
         ((''phone'', ''Phone number must be exactly 10 digits'')
              \<in> set (validationResult l req))
            = (\<not> matchesPhone (trim (phone req))) \<and>
         ((''message'', ''Message must be between 10 and 1000 characters'')
              \<in> set (validationResult l req))
            = (\<not> isLength l 10 1000 (trim (message req))) \<and>
         ((''formType'', ''Invalid form type'') \<in> set (validationResult l req))
            = (formType req \<notin> set formTypes) \<and>
         ((''recaptchaToken'', ''Please complete the captcha verification'')
              \<in> set (validationResult l req))
            = (recaptchaToken req = [])"
proof -
  from assms have ne: "validationResult l req \<noteq> []"
    by (auto simp: validationResult_Nil)
  have run: "post_contact l e' w' s db req =
      post_result
        (respond 400 (ValidationFailure ''Validation failed'' (validationResult l req)))
        db s []"
    for e' w'
    using ne by (rule post_contact_invalid)
  show ?thesis
    by (simp add: run post_result_sel validationResult_mem)
qed

theorem validation_failure_witness:
  "response (post_contact sampleLib production quietWorld \<lparr>transporter = True\<rparr>
      [janeStored] badRequest) =
     respond 400 (ValidationFailure ''Validation failed''
       [(''name'', ''Name must be between 2 and 100 characters''),
        (''name'', ''Name can only contain letters and spaces''),
        (''phone'', ''Phone number must be exactly 10 digits''),
        (''recaptchaToken'', ''Please complete the captcha verification'')]) \<and>
   contacts (post_contact sampleLib production quietWorld \<lparr>transporter = True\<rparr>
      [janeStored] badRequest) = [janeStored] \<and>
   trace (post_contact sampleLib production quietWorld \<lparr>transporter = True\<rparr>
      [janeStored] badRequest) = []"
proof -
  have h: "\<not> isLength sampleLib 3 100 (trim (name badRequest)) \<or>
           \<not> matchesName (trim (name badRequest)) \<or>
           \<not> isEmail sampleLib (trim (email badRequest)) \<or>
           \<not> isLength sampleLib 0 255 (normalizeEmail sampleLib (trim (email badRequest))) \<or>
           \<not> matchesPhone (trim (phone badRequest)) \<or>
           \<not> isLength sampleLib 10 1000 (trim (message badRequest)) \<or>
           formType badRequest \<notin> set formTypes \<or> recaptchaToken badRequest = []"
    by (simp add: badRequest_def)
  have v: "validationResult sampleLib badRequest =
       [(''name'', ''Name must be between 2 and 100 characters''),
        (''name'', ''Name can only contain letters and spaces''),
        (''phone'', ''Phone number must be exactly 10 digits''),
        (''recaptchaToken'', ''Please complete the captcha verification'')]"
    by (simp add: badRequest_def validators stand_in)
  show ?thesis
    using validation_failure_collects_all_errors
      [OF h, of production quietWorld "\<lparr>transporter = True\<rparr>" "[janeStored]"]
    unfolding v by simp
qed

section \<open>Spam gate\<close>

text \<open>
  C3. \<^verbatim>\<open>verifyRecaptcha\<close> returns true, without asking the service, when \<^verbatim>\<open>NODE_ENV\<close> is
  \<^verbatim>\<open>development\<close>, when the token is one of the three bypass tokens, and when no secret
  is configured. Otherwise it sends the secret and the token to the service and returns
  the verdict; when that call fails it returns false. Whenever the call was made and
  failed, the result is true exactly when \<^verbatim>\<open>NODE_ENV\<close> is \<^verbatim>\<open>development\<close>, as the
  \<^verbatim>\<open>catch\<close> branch says.
\<close>

theorem verifyRecaptcha_cases:
  "(NODE_ENV e = Some (js ''development'') \<longrightarrow> verifyRecaptcha e w token = (True, [])) \<and>
   (token = (js ''development_token'') \<or> token = (js ''fallback_token'') \<or> token = (js ''test_token'')
      \<longrightarrow> verifyRecaptcha e w token = (True, [])) \<and>
   (\<not> truthy (RECAPTCHA_SECRET_KEY e) \<longrightarrow> verifyRecaptcha e w token = (True, [])) \<and>
   (NODE_ENV e \<noteq> Some (js ''development'') \<and>
    \<not> (token = (js ''development_token'') \<or> token = (js ''fallback_token'') \<or> token = (js ''test_token'')) \<and>
    RECAPTCHA_SECRET_KEY e = Some secret \<and> secret \<noteq> [] \<longrightarrow>
      HttpPost secret token \<in> set (snd (verifyRecaptcha e w token)) \<and>
      (\<forall>verdict. siteverify w secret token = Fulfilled verdict \<longrightarrow>
         fst (verifyRecaptcha e w token) = verdict) \<and>
      (siteverify w secret token = Rejected \<longrightarrow> \<not> fst (verifyRecaptcha e w token))) \<and>
   (HttpPost secret token \<in> set (snd (verifyRecaptcha e w token)) \<and>
    siteverify w secret token = Rejected \<longrightarrow>
      fst (verifyRecaptcha e w token) = (NODE_ENV e = Some (js ''development'')))"
  by (auto simp add: verifyRecaptcha_def bypassTokens_def truthy_def
      split: option.splits promise.splits if_splits)

theorem verifyRecaptcha_witness:
  "verifyRecaptcha development unreachableService (js ''token'') = (True, []) \<and>
   verifyRecaptcha production unreachableService (js ''test_token'') = (True, []) \<and>
   verifyRecaptcha noSecret unreachableService (js ''token'') = (True, []) \<and>
   fst (verifyRecaptcha production quietWorld (js ''good'')) \<and>
   \<not> fst (verifyRecaptcha production quietWorld (js ''token'')) \<and>
   \<not> fst (verifyRecaptcha production unreachableService (js ''good'')) \<and>
   HttpPost (js ''secret'') (js ''good'') \<in> set (snd (verifyRecaptcha production unreachableService (js ''good'')))"
proof -
  have e: "NODE_ENV development = Some (js ''development'')"
    "NODE_ENV production \<noteq> Some (js ''development'')"
    "RECAPTCHA_SECRET_KEY production = Some (js ''secret'')"
    "\<not> truthy (RECAPTCHA_SECRET_KEY noSecret)"
    "NODE_ENV noSecret \<noteq> Some (js ''development'')"
    "js ''secret'' \<noteq> []"
    by (simp_all add: development_def production_def noSecret_def truthy_def js_def)
  have t: "js ''test_token'' \<noteq> js ''development_token''"
    "js ''test_token'' \<noteq> js ''fallback_token''"
    "js ''token'' \<noteq> js ''development_token''" "js ''token'' \<noteq> js ''fallback_token''"
    "js ''token'' \<noteq> js ''test_token''"
    "js ''good'' \<noteq> js ''development_token''" "js ''good'' \<noteq> js ''fallback_token''"
    "js ''good'' \<noteq> js ''test_token''"
    by (simp_all add: js_def)
  have w: "siteverify quietWorld (js ''secret'') (js ''good'') = Fulfilled True"
    "siteverify quietWorld (js ''secret'') (js ''token'') = Fulfilled False"
    "siteverify unreachableService (js ''secret'') (js ''good'') = Rejected"
    by (simp_all add: quietWorld_def unreachableService_def js_def)
  have 1: "verifyRecaptcha development unreachableService (js ''token'') = (True, [])"
    using verifyRecaptcha_cases [of development unreachableService "js ''token''" "js ''secret''"]
    by (simp add: e t)
  have 2: "verifyRecaptcha production unreachableService (js ''test_token'') = (True, [])"
    using verifyRecaptcha_cases [of production unreachableService "js ''test_token''" "js ''secret''"]
    by (simp add: e t)
  have 3: "verifyRecaptcha noSecret unreachableService (js ''token'') = (True, [])"
    using verifyRecaptcha_cases [of noSecret unreachableService "js ''token''" "js ''secret''"]
    by (simp add: e t)
  have 4: "fst (verifyRecaptcha production quietWorld (js ''good''))"
    using verifyRecaptcha_cases [of production quietWorld "js ''good''" "js ''secret''"]
    by (auto simp add: e t w)
  have 5: "\<not> fst (verifyRecaptcha production quietWorld (js ''token''))"
    using verifyRecaptcha_cases [of production quietWorld "js ''token''" "js ''secret''"]
    by (auto simp add: e t w)
  have 6: "\<not> fst (verifyRecaptcha production unreachableService (js ''good'')) \<and>
     HttpPost (js ''secret'') (js ''good'')
       \<in> set (snd (verifyRecaptcha production unreachableService (js ''good'')))"
    using verifyRecaptcha_cases [of production unreachableService "js ''good''" "js ''secret''"]
    by (simp add: e t w)
  from 1 2 3 4 5 6 show ?thesis
    by simp
qed

section \<open>Duplicate check and persistence\<close>

lemma duplicate_exists:
  "list_ex (duplicateFilter l (email (sanitized l req)) (phone (sanitized l req)) t) db \<longleftrightarrow>
     (\<exists>c\<in>set db.
        (email c = toLowerCase l (trim (normalizeEmail l (trim (email req)))) \<or>
         phone c = trim (phone req)) \<and> t \<le> submittedAt c)"
  by (simp add: list_ex_iff duplicateFilter_def sanitized_def trim_idem)

lemma newContact_sanitized:
  "newContact l w (sanitized l req) =
     \<lparr>name = trim (name req),
      email = toLowerCase l (trim (normalizeEmail l (trim (email req)))),
      phone = trim (phone req), message = trim (message req), formType = formType req,
      submittedAt = nowCreate w, oid = newObjectId w, status = js ''new''\<rparr>"
  by (simp add: newContact_def sanitized_def trim_idem)

text \<open>Whether the schema accepts a new document does not depend on the clock or on the
  \<^verbatim>\<open>_id\<close>.\<close>

lemma schemaValid_newContact_world:
  "schemaValid (newContact l w b) = schemaValid (newContact l w' b)"
  by (simp add: schemaValid_def newContact_def)

text \<open>When the schema refuses the document, \<^verbatim>\<open>save()\<close> throws before anything is written
  and the \<^verbatim>\<open>catch\<close> answers.\<close>

lemma post_contact_schema_rejected:
  assumes "validationResult l req = []" "fst (verifyRecaptcha e w (recaptchaToken req))"
    "\<not> dbThrows w FindOne"
    "\<not> list_ex (duplicateFilter l (email (sanitized l req)) (phone (sanitized l req))
       (nowCheck w - 3600000)) db"
    "\<not> schemaValid (newContact l w (sanitized l req))"
  shows "post_contact l e w s db req =
     post_result serverError db s
       (snd (verifyRecaptcha e w (recaptchaToken req)) @ [Db FindOne] @
        [ConsoleError ''Contact form submission error:''])"
proof -
  have fo: "find (duplicateFilter l (email (sanitized l req)) (phone (sanitized l req))
      (nowCheck w - 3600000)) db = None"
    using assms(4) by (simp add: find_duplicate)
  obtain ev where vr: "verifyRecaptcha e w (recaptchaToken req) = (True, ev)"
    using assms(2) by (cases "verifyRecaptcha e w (recaptchaToken req)") auto
  show ?thesis
    using assms(1,3,5) fo vr
    by (simp add: post_contact_def Let_def recaptchaToken_sanitized findOne_def save_def)
qed

subsection \<open>The concrete requests\<close>

lemma jane_valid: "validationResult sampleLib janeDoe = []"
  by (simp add: janeDoe_def validators stand_in)

lemma jane_fields:
  "trim (name janeDoe) = js ''Jane Doe''"
  "toLowerCase sampleLib (trim (normalizeEmail sampleLib (trim (email janeDoe)))) =
     js ''jane@x.com''"
  "trim (phone janeDoe) = js ''9876543210''"
  "trim (message janeDoe) = js ''Interested in your product''"
  "formType janeDoe = js ''hero''"
  by (simp_all add: janeDoe_def validators stand_in)

lemma jane_passes_gate:
  "fst (verifyRecaptcha e w (recaptchaToken janeDoe))"
  "snd (verifyRecaptcha e w (recaptchaToken janeDoe)) = []"
  by (simp_all add: verifyRecaptcha_def janeDoe_def bypassTokens_def)

lemma jane_schema: "schemaValid (newContact sampleLib w (sanitized sampleLib janeDoe))"
  by (simp add: newContact_sanitized jane_fields schemaValid_def)
    (simp add: js_def matchesPhone_def isDigit_def formTypes_def statuses_def)

lemma emoji_Suc: "emoji (Suc n) = 55357 # 56832 # emoji n"
  by (simp add: emoji_def)

lemma length_emoji: "length (emoji n) = 2 * n"
  by (induction n) (simp_all add: emoji_Suc, simp add: emoji_def)

lemma surrogatePairs_emoji: "surrogatePairs (emoji n) = n"
  by (induction n) (simp_all add: emoji_Suc, simp add: emoji_def)

lemma last_emoji: "last (emoji (Suc n)) = 56832"
  by (induction n) (simp_all add: emoji_Suc, simp add: emoji_def)

lemma trim_emoji: "trim (emoji n) = emoji n"
proof (cases n)
  case 0
  then show ?thesis by (simp add: emoji_def trim_def)
next
  case (Suc m)
  have "\<not> isSpace (hd (emoji (Suc m)))" "\<not> isSpace (last (emoji (Suc m)))"
    by (simp_all add: last_emoji, simp_all add: emoji_Suc isSpace_def)
  then show ?thesis
    unfolding trim_def Suc by (intro strip_fixed) simp
qed

lemma emoji_valid: "validationResult sampleLib emojiRequest = []"
proof -
  have "isLength sampleLib 10 1000 (trim (emoji 600))"
    by (simp add: trim_emoji isLength_def sampleLib_def length_emoji surrogatePairs_emoji)
  then show ?thesis
    using jane_valid
    by (simp add: validationResult_Nil emojiRequest_def)
qed

lemma emoji_passes_gate: "fst (verifyRecaptcha e w (recaptchaToken emojiRequest))"
  using jane_passes_gate(1) [of e w] by (simp add: emojiRequest_def)

lemma emoji_schema:
  "\<not> schemaValid (newContact sampleLib w (sanitized sampleLib emojiRequest))"
  by (simp add: newContact_sanitized schemaValid_def emojiRequest_def trim_emoji length_emoji)




text \<open>
  C4, as the code has it. For a request that passes validation, the spam gate and the
  duplicate check, and whose insert succeeds (the schema's validators accept the document
  and the backend accepts the write), the collection gains exactly one record: the
  trimmed form fields, the email trimmed, normalized and lowercased, \<open>status\<close> \<^verbatim>\<open>new\<close>,
  \<open>submittedAt\<close> the clock at creation and the \<^verbatim>\<open>_id\<close> generated for it. The answer is
  201 and its data are that \<^verbatim>\<open>_id\<close>, that \<open>submittedAt\<close> and the form type, nothing else.
\<close>

theorem accepted_submission_is_persisted:
  assumes "validationResult l req = []"
    and "fst (verifyRecaptcha e w (recaptchaToken req))"
    and "\<not> dbThrows w FindOne"
    and "\<not> (\<exists>c\<in>set db.
         (email c = toLowerCase l (trim (normalizeEmail l (trim (email req)))) \<or>
          phone c = trim (phone req)) \<and>
         nowCheck w - 60 * 60 * 1000 \<le> submittedAt c)"
    and "schemaValid (newContact l w (sanitized l req))"
    and "\<not> dbThrows w Save"
  shows
    "contacts (post_contact l e w s db req) =
       db @ [\<lparr>name = trim (name req),
              email = toLowerCase l (trim (normalizeEmail l (trim (email req)))),
              phone = trim (phone req), message = trim (message req),
              formType = formType req, submittedAt = nowCreate w,
              oid = newObjectId w, status = js ''new''\<rparr>] \<and>
     response (post_contact l e w s db req) =
       respond 201
         (Created ''Thank you for your inquiry! We will contact you within 24 hours.''
            (newObjectId w) (nowCreate w) (formType req))"
proof -
  have d: "\<not> list_ex (duplicateFilter l (email (sanitized l req)) (phone (sanitized l req))
       (nowCheck w - 3600000)) db"
    using assms(4) by (simp add: duplicate_exists)
  show ?thesis
    by (simp add: post_contact_created [OF assms(1,2,3) d assms(5,6)] post_result_sel
        newContact_sanitized)
qed

theorem accepted_submission_witness:
  "contacts (post_contact sampleLib production quietWorld \<lparr>transporter = True\<rparr> [] janeDoe) =
     [\<lparr>name = js ''Jane Doe'', email = js ''jane@x.com'', phone = js ''9876543210'',
       message = js ''Interested in your product'', formType = js ''hero'',
       submittedAt = 1700000000005, oid = 1, status = js ''new''\<rparr>] \<and>
   response (post_contact sampleLib production quietWorld \<lparr>transporter = True\<rparr> [] janeDoe) =
     respond 201
       (Created ''Thank you for your inquiry! We will contact you within 24 hours.''
          1 1700000000005 (js ''hero''))"
proof -
  have f: "\<not> dbThrows quietWorld FindOne" "\<not> dbThrows quietWorld Save"
    "nowCreate quietWorld = 1700000000005" "newObjectId quietWorld = 1"
    by (simp_all add: quietWorld_def)
  have d: "\<not> (\<exists>c\<in>set [].
         (email c =
            toLowerCase sampleLib (trim (normalizeEmail sampleLib (trim (email janeDoe)))) \<or>
          phone c = trim (phone janeDoe)) \<and>
         nowCheck quietWorld - 60 * 60 * 1000 \<le> submittedAt c)"
    by simp
  show ?thesis
    using accepted_submission_is_persisted
      [OF jane_valid jane_passes_gate(1) f(1) d jane_schema f(2),
        where s = "\<lparr>transporter = True\<rparr>"]
    by (simp add: jane_fields f)
qed

text \<open>
  C4 as stated fails: the request with a message of 600 emoji passes validation (the
  middleware counts 600 characters), the spam gate and the duplicate check on an empty
  store that works, and is answered 500 with nothing stored, because the schema bounds
  the message by its 1200 code units.
\<close>

theorem accepted_submission_counterexample:
  "validationResult sampleLib emojiRequest = [] \<and>
   fst (verifyRecaptcha production quietWorld (recaptchaToken emojiRequest)) \<and>
   response (post_contact sampleLib production quietWorld \<lparr>transporter = True\<rparr> []
      emojiRequest) =
     respond 500
       (Failure ''An error occurred while processing your request. Please try again later.'') \<and>
   contacts (post_contact sampleLib production quietWorld \<lparr>transporter = True\<rparr> []
      emojiRequest) = []"
proof -
  have f: "\<not> dbThrows quietWorld FindOne"
    by (simp add: quietWorld_def)
  have d: "\<not> list_ex (duplicateFilter sampleLib (email (sanitized sampleLib emojiRequest))
       (phone (sanitized sampleLib emojiRequest)) (nowCheck quietWorld - 3600000)) []"
    by simp
  have "post_contact sampleLib production quietWorld \<lparr>transporter = True\<rparr> [] emojiRequest =
    post_result serverError [] \<lparr>transporter = True\<rparr>
      (snd (verifyRecaptcha production quietWorld (recaptchaToken emojiRequest)) @
       [Db FindOne] @ [ConsoleError ''Contact form submission error:''])"
    by (rule post_contact_schema_rejected [OF emoji_valid emoji_passes_gate f d emoji_schema])
  then show ?thesis
    by (simp add: emoji_valid emoji_passes_gate post_result_sel serverError_def)
qed

section \<open>Notifications\<close>

lemma verifyRecaptcha_mail:
  "verifyRecaptcha e (w\<lparr>createTransportThrows := t, adminMail := a, replyMail := r\<rparr>) tok =
   verifyRecaptcha e w tok"
  by (simp add: verifyRecaptcha_def split: option.splits)

lemma sendContactNotification_rejected:
  assumes "smtpConfigured e" "transporter s \<or> \<not> createTransportThrows w" "adminMail w = Rejected"
  shows "fst (sendContactNotification e w s d) = Rejected"
  using assms
  by (auto simp add: sendContactNotification_def ensureTransporter_def initializeTransporter_def)

lemma sendContactNotification_service:
  "fst (snd (sendContactNotification e w s d)) = fst (snd (ensureTransporter e w s))"
  by (simp add: sendContactNotification_def split: prod.splits promise.splits)

lemma sendAutoReply_rejected:
  assumes "smtpConfigured e" "transporter s \<or> \<not> createTransportThrows w" "replyMail w = Rejected"
  shows "fst (sendAutoReply e w s d) = Rejected"
  using assms
  by (auto simp add: sendAutoReply_def ensureTransporter_def initializeTransporter_def)

lemma ensureTransporter_available:
  assumes "smtpConfigured e" "transporter s \<or> \<not> createTransportThrows w"
  shows "transporter (fst (snd (ensureTransporter e w s)))"
  using assms by (auto simp add: ensureTransporter_def initializeTransporter_def)

lemma sendEmails_logs:
  assumes "smtpConfigured e" "transporter s \<or> \<not> createTransportThrows w"
  shows "adminMail w = Rejected \<Longrightarrow>
           ConsoleError ''Failed to send admin notification:'' \<in> set (snd (sendEmails e w s d))"
    and "replyMail w = Rejected \<Longrightarrow>
           ConsoleError ''Failed to send auto-reply:'' \<in> set (snd (sendEmails e w s d))"
proof -
  obtain p1 s1 ev1 where c1: "sendContactNotification e w s d = (p1, s1, ev1)"
    by (cases "sendContactNotification e w s d") auto
  obtain p2 s2 ev2 where c2: "sendAutoReply e w s1 d = (p2, s2, ev2)"
    by (cases "sendAutoReply e w s1 d") auto
  have tr: "snd (sendEmails e w s d) =
      ev1 @ catchLog p1 ''Failed to send admin notification:'' @
      ev2 @ catchLog p2 ''Failed to send auto-reply:''"
    using assms(1) by (simp add: sendEmails_def c1 c2)
  have s1: "transporter s1"
    using ensureTransporter_available [OF assms] sendContactNotification_service [of e w s d]
    by (simp add: c1)
  show "ConsoleError ''Failed to send admin notification:'' \<in> set (snd (sendEmails e w s d))"
    if "adminMail w = Rejected"
    using sendContactNotification_rejected [OF assms that, of d]
    by (simp add: tr c1 catchLog_def)
  show "ConsoleError ''Failed to send auto-reply:'' \<in> set (snd (sendEmails e w s d))"
    if "replyMail w = Rejected"
    using sendAutoReply_rejected [OF assms(1) _ that, of s1 d] s1
    by (simp add: tr c2 catchLog_def)
qed

lemma sendContactNotification_replyMail:
  "sendContactNotification e (w\<lparr>replyMail := r\<rparr>) s d = sendContactNotification e w s d"
  by (simp add: sendContactNotification_def ensureTransporter_def initializeTransporter_def)

lemma sendAutoReply_adminMail:
  "sendAutoReply e (w\<lparr>adminMail := a\<rparr>) s d = sendAutoReply e w s d"
  by (simp add: sendAutoReply_def ensureTransporter_def initializeTransporter_def)

lemma sendContactNotification_service_adminMail:
  "fst (snd (sendContactNotification e (w\<lparr>adminMail := a\<rparr>) s d)) =
   fst (snd (sendContactNotification e w s d))"
  by (simp add: sendContactNotification_service ensureTransporter_def initializeTransporter_def)

lemma send_without_transporter:
  assumes "\<not> smtpConfigured e" "\<not> transporter s"
  shows "sendContactNotification e w s d = (Fulfilled (), s, [])"
    and "sendAutoReply e w s d = (Fulfilled (), s, [])"
  using assms
  by (simp_all add: sendContactNotification_def sendAutoReply_def ensureTransporter_def)

lemma EmailService_unconfigured:
  "\<not> smtpConfigured e \<Longrightarrow> \<not> transporter (fst (EmailService e w))"
  by (simp add: EmailService_def initializeTransporter_def)

text \<open>
  C7. Take a submission that is persisted (validation, spam gate and duplicate check
  passed, the schema's validators accepted the document and the backend the write). Whatever the two \<^verbatim>\<open>sendMail\<close> calls and
  \<^verbatim>\<open>createTransport\<close> do, the answer is the same 201 and the collection is the same. A
  failed attempt leaves its \<^verbatim>\<open>console.error\<close> line in the trace. The admin notification
  does not depend on how the auto-reply ends, and neither the service it leaves behind
  nor the auto-reply depends on how the admin notification ends. Without SMTP credentials
  the service has no transporter, both of its functions return a fulfilled promise and do
  nothing, and the handler does not call them: the service is as before and no mail is
  attempted. That the response is not delayed by the mails is a matter of timing, which
  the model does not have.
\<close>

theorem notifications_never_change_the_answer:
  assumes "validationResult l req = []"
    and "fst (verifyRecaptcha e w (recaptchaToken req))"
    and "\<not> dbThrows w FindOne"
    and "\<not> (\<exists>c\<in>set db.
         (email c = toLowerCase l (trim (normalizeEmail l (trim (email req)))) \<or>
          phone c = trim (phone req)) \<and>
         nowCheck w - 60 * 60 * 1000 \<le> submittedAt c)"
    and "schemaValid (newContact l w (sanitized l req))"
    and "\<not> dbThrows w Save"
  shows
    "(\<forall>t a r.
        response (post_contact l e
            (w\<lparr>createTransportThrows := t, adminMail := a, replyMail := r\<rparr>) s db req) =
          respond 201
            (Created ''Thank you for your inquiry! We will contact you within 24 hours.''
               (newObjectId w) (nowCreate w) (formType req)) \<and>
        contacts (post_contact l e
            (w\<lparr>createTransportThrows := t, adminMail := a, replyMail := r\<rparr>) s db req) =
          contacts (post_contact l e w s db req)) \<and>
     (smtpConfigured e \<and> (transporter s \<or> \<not> createTransportThrows w) \<and>
      adminMail w = Rejected \<longrightarrow>
        ConsoleError ''Failed to send admin notification:''
          \<in> set (trace (post_contact l e w s db req))) \<and>
     (smtpConfigured e \<and> (transporter s \<or> \<not> createTransportThrows w) \<and>
      replyMail w = Rejected \<longrightarrow>
        ConsoleError ''Failed to send auto-reply:''
          \<in> set (trace (post_contact l e w s db req))) \<and>
     (\<forall>a r s' d.
        sendContactNotification e (w\<lparr>replyMail := r\<rparr>) s' d =
          sendContactNotification e w s' d \<and>
        fst (snd (sendContactNotification e (w\<lparr>adminMail := a\<rparr>) s' d)) =
          fst (snd (sendContactNotification e w s' d)) \<and>
        sendAutoReply e (w\<lparr>adminMail := a\<rparr>) s' d = sendAutoReply e w s' d) \<and>
     (\<not> smtpConfigured e \<longrightarrow>
        (\<forall>w' d. \<not> transporter (fst (EmailService e w')) \<and>
           sendContactNotification e w (fst (EmailService e w')) d =
             (Fulfilled (), fst (EmailService e w'), []) \<and>
           sendAutoReply e w (fst (EmailService e w')) d =
             (Fulfilled (), fst (EmailService e w'), [])) \<and>
        service (post_contact l e w s db req) = s \<and>
        trace (post_contact l e w s db req) =
          snd (verifyRecaptcha e w (recaptchaToken req)) @ [Db FindOne, Db Save])"
proof -
  have d: "\<not> list_ex (duplicateFilter l (email (sanitized l req)) (phone (sanitized l req))
       (nowCheck w - 3600000)) db"
    using assms(4) by (simp add: duplicate_exists)
  note m = assms(5)
  note run = post_contact_created [OF assms(1,2,3) d m assms(6)]
  have any: "response (post_contact l e
            (w\<lparr>createTransportThrows := t, adminMail := a, replyMail := r\<rparr>) s db req) =
          respond 201
            (Created ''Thank you for your inquiry! We will contact you within 24 hours.''
               (newObjectId w) (nowCreate w) (formType req)) \<and>
        contacts (post_contact l e
            (w\<lparr>createTransportThrows := t, adminMail := a, replyMail := r\<rparr>) s db req) =
          contacts (post_contact l e w s db req)" for t a r
  proof -
    let ?w = "w\<lparr>createTransportThrows := t, adminMail := a, replyMail := r\<rparr>"
    have g: "fst (verifyRecaptcha e ?w (recaptchaToken req))"
      using assms(2) by (simp only: verifyRecaptcha_mail)
    have f: "\<not> dbThrows ?w FindOne" "\<not> dbThrows ?w Save"
      using assms(3,6) by simp_all
    have d': "\<not> list_ex (duplicateFilter l (email (sanitized l req)) (phone (sanitized l req))
       (nowCheck ?w - 3600000)) db"
      using d by simp
    have m': "schemaValid (newContact l ?w (sanitized l req))"
      using m by (simp add: schemaValid_def newContact_def)
    show ?thesis
      by (simp add: post_contact_created [OF assms(1) g f(1) d' m' f(2)] run post_result_sel
          newContact_def)
  qed
  have tr: "trace (post_contact l e w s db req) =
      snd (verifyRecaptcha e w (recaptchaToken req)) @ [Db FindOne, Db Save] @
      snd (sendEmails e w s
          \<lparr>name = name (sanitized l req), email = email (sanitized l req),
           phone = phone (sanitized l req), message = message (sanitized l req),
           formType = formType req, submittedAt = nowCreate w\<rparr>)"
    by (simp add: run post_result_sel)
  have la: "ConsoleError ''Failed to send admin notification:''
          \<in> set (trace (post_contact l e w s db req))"
    if "smtpConfigured e \<and> (transporter s \<or> \<not> createTransportThrows w) \<and>
      adminMail w = Rejected"
    using that sendEmails_logs(1) [of e s w] by (simp add: tr)
  have lr: "ConsoleError ''Failed to send auto-reply:''
          \<in> set (trace (post_contact l e w s db req))"
    if "smtpConfigured e \<and> (transporter s \<or> \<not> createTransportThrows w) \<and>
      replyMail w = Rejected"
    using that sendEmails_logs(2) [of e s w] by (simp add: tr)
  have un: "(\<forall>w' d. \<not> transporter (fst (EmailService e w')) \<and>
           sendContactNotification e w (fst (EmailService e w')) d =
             (Fulfilled (), fst (EmailService e w'), []) \<and>
           sendAutoReply e w (fst (EmailService e w')) d =
             (Fulfilled (), fst (EmailService e w'), [])) \<and>
        service (post_contact l e w s db req) = s \<and>
        trace (post_contact l e w s db req) =
          snd (verifyRecaptcha e w (recaptchaToken req)) @ [Db FindOne, Db Save]"
    if u: "\<not> smtpConfigured e"
    using EmailService_unconfigured [OF u] send_without_transporter [OF u]
    by (simp add: run post_result_sel sendEmails_def u)
  show ?thesis
    using any la lr un
    by (simp only: sendContactNotification_replyMail sendContactNotification_service_adminMail
        sendAutoReply_adminMail) blast
qed

theorem notifications_witness:
  "response (post_contact sampleLib production mailDown \<lparr>transporter = True\<rparr> [] janeDoe) =
     respond 201
       (Created ''Thank you for your inquiry! We will contact you within 24 hours.''
          1 1700000000005 (js ''hero'')) \<and>
   ConsoleError ''Failed to send admin notification:''
     \<in> set (trace (post_contact sampleLib production mailDown \<lparr>transporter = True\<rparr> []
          janeDoe)) \<and>
   ConsoleError ''Failed to send auto-reply:''
     \<in> set (trace (post_contact sampleLib production mailDown \<lparr>transporter = True\<rparr> []
          janeDoe)) \<and>
   trace (post_contact sampleLib noSmtp mailDown \<lparr>transporter = False\<rparr> [] janeDoe) =
     [Db FindOne, Db Save]"
proof -
  note v = jane_valid
  note g = jane_passes_gate
  have f: "\<not> dbThrows mailDown FindOne" "\<not> dbThrows mailDown Save"
    "nowCreate mailDown = 1700000000005" "newObjectId mailDown = 1"
    "adminMail mailDown = Rejected" "replyMail mailDown = Rejected"
    "mailDown\<lparr>createTransportThrows := False, adminMail := Rejected, replyMail := Rejected\<rparr>
       = mailDown"
    by (simp_all add: mailDown_def quietWorld_def)
  have c: "smtpConfigured production" "\<not> smtpConfigured noSmtp"
    by (simp_all add: smtpConfigured_def production_def noSmtp_def truthy_def js_def)
  have d: "\<not> (\<exists>c\<in>set [].
         (email c = toLowerCase sampleLib (trim (normalizeEmail sampleLib (trim (email janeDoe)))) \<or>
          phone c = trim (phone janeDoe)) \<and>
         nowCheck mailDown - 60 * 60 * 1000 \<le> submittedAt c)"
    by simp
  note m = jane_schema
  have ft: "formType janeDoe = js ''hero''"
    by (simp add: janeDoe_def)
  note configured = notifications_never_change_the_answer
    [OF v g(1) f(1) d m f(2), where e = production and s = "\<lparr>transporter = True\<rparr>"]
  note unconfigured = notifications_never_change_the_answer
    [OF v g(1) f(1) d m f(2), where e = noSmtp and s = "\<lparr>transporter = False\<rparr>"]
  have 1: "response (post_contact sampleLib production mailDown \<lparr>transporter = True\<rparr> []
        janeDoe) =
     respond 201
       (Created ''Thank you for your inquiry! We will contact you within 24 hours.''
          1 1700000000005 (js ''hero''))"
    using configured
      [THEN conjunct1, THEN spec [of _ False], THEN spec [of _ Rejected],
        THEN spec [of _ Rejected]]
    by (simp add: f ft)
  have 2: "ConsoleError ''Failed to send admin notification:''
     \<in> set (trace (post_contact sampleLib production mailDown \<lparr>transporter = True\<rparr> []
          janeDoe))"
    using configured [THEN conjunct2, THEN conjunct1] by (simp add: c f)
  have 3: "ConsoleError ''Failed to send auto-reply:''
     \<in> set (trace (post_contact sampleLib production mailDown \<lparr>transporter = True\<rparr> []
          janeDoe))"
    using configured [THEN conjunct2, THEN conjunct2, THEN conjunct1] by (simp add: c f)
  have 4: "trace (post_contact sampleLib noSmtp mailDown \<lparr>transporter = False\<rparr> [] janeDoe) =
     [Db FindOne, Db Save]"
    using unconfigured [THEN conjunct2, THEN conjunct2, THEN conjunct2, THEN conjunct2]
    by (simp add: c g)
  from 1 2 3 4 show ?thesis
    by simp
qed

section \<open>Status updates\<close>

lemma handler_result_sel:
  "response (handler_result r db ev) = r" "contacts (handler_result r db ev) = db"
  "trace (handler_result r db ev) = ev"
  by (simp_all add: handler_result_def)

lemma updateFirst_none:
  "\<not> list_ex p cs \<Longrightarrow> updateFirst p f cs = (None, cs)"
  by (induction cs) simp_all

lemma updateFirst_some:
  "list_ex p cs \<Longrightarrow>
   \<exists>j<length cs. p (cs ! j) \<and> (\<forall>m<j. \<not> p (cs ! m)) \<and>
     updateFirst p f cs = (Some (f (cs ! j)), cs[j := f (cs ! j)])"
proof (induction cs)
  case Nil
  then show ?case by simp
next
  case (Cons c cs)
  show ?case
  proof (cases "p c")
    case True
    then have "0 < length (c # cs) \<and> p ((c # cs) ! 0) \<and> (\<forall>m<0. \<not> p ((c # cs) ! m)) \<and>
      updateFirst p f (c # cs) = (Some (f ((c # cs) ! 0)), (c # cs)[0 := f ((c # cs) ! 0)])"
      by simp
    then show ?thesis by blast
  next
    case False
    with Cons.prems have "list_ex p cs" by simp
    from Cons.IH [OF this] obtain j where j: "j < length cs" "p (cs ! j)"
      "\<forall>m<j. \<not> p (cs ! m)" "updateFirst p f cs = (Some (f (cs ! j)), cs[j := f (cs ! j)])"
      by blast
    have "\<forall>m<Suc j. \<not> p ((c # cs) ! m)"
      using False j(3) by (auto simp: less_Suc_eq_0_disj)
    with j False have "Suc j < length (c # cs) \<and> p ((c # cs) ! Suc j) \<and>
      (\<forall>m<Suc j. \<not> p ((c # cs) ! m)) \<and>
      updateFirst p f (c # cs) = (Some (f ((c # cs) ! Suc j)), (c # cs)[Suc j := f ((c # cs) ! Suc j)])"
      by simp
    then show ?thesis by blast
  qed
qed

lemma patch_status_invalid:
  "st \<notin> set statuses \<Longrightarrow>
   patch_status l w db i st = handler_result (respond 400 (Failure ''Invalid status value'')) db []"
  by (simp add: patch_status_def)

lemma patch_status_cast_error:
  "st \<in> set statuses \<Longrightarrow> castObjectId l i = None \<Longrightarrow>
   patch_status l w db i st =
     handler_result (respond 500 (Failure ''Error updating contact status'')) db
       [ConsoleError ''Error updating contact status:'']"
  by (simp add: patch_status_def findByIdAndUpdate_def)

lemma patch_status_db_error:
  "st \<in> set statuses \<Longrightarrow> castObjectId l i = Some k \<Longrightarrow> dbThrows w FindByIdAndUpdate \<Longrightarrow>
   patch_status l w db i st =
     handler_result (respond 500 (Failure ''Error updating contact status'')) db
       [Db FindByIdAndUpdate, ConsoleError ''Error updating contact status:'']"
  by (simp add: patch_status_def findByIdAndUpdate_def)

lemma patch_status_not_found:
  "st \<in> set statuses \<Longrightarrow> castObjectId l i = Some k \<Longrightarrow> \<not> dbThrows w FindByIdAndUpdate \<Longrightarrow>
   \<not> list_ex (\<lambda>c. oid c = k) db \<Longrightarrow>
   patch_status l w db i st =
     handler_result (respond 404 (Failure ''Contact not found'')) db [Db FindByIdAndUpdate]"
  by (simp add: patch_status_def findByIdAndUpdate_def updateFirst_none)

lemma patch_status_updated:
  assumes "st \<in> set statuses" "castObjectId l i = Some k" "\<not> dbThrows w FindByIdAndUpdate"
    "list_ex (\<lambda>c. oid c = k) db"
  shows "\<exists>j<length db. oid (db ! j) = k \<and> (\<forall>m<j. oid (db ! m) \<noteq> k) \<and>
     patch_status l w db i st =
       handler_result (respond 200 (Updated ((db ! j)\<lparr>status := st\<rparr>)))
         (db[j := (db ! j)\<lparr>status := st\<rparr>]) [Db FindByIdAndUpdate]"
proof -
  from updateFirst_some [OF assms(4), of "\<lambda>c. c\<lparr>status := st\<rparr>"]
  obtain j where j: "j < length db" "oid (db ! j) = k" "\<forall>m<j. oid (db ! m) \<noteq> k"
    "updateFirst (\<lambda>c. oid c = k) (\<lambda>c. c\<lparr>status := st\<rparr>) db =
       (Some ((db ! j)\<lparr>status := st\<rparr>), db[j := (db ! j)\<lparr>status := st\<rparr>])"
    by blast
  have "patch_status l w db i st =
       handler_result (respond 200 (Updated ((db ! j)\<lparr>status := st\<rparr>)))
         (db[j := (db ! j)\<lparr>status := st\<rparr>]) [Db FindByIdAndUpdate]"
    using assms(1,2,3) j(4) by (simp add: patch_status_def findByIdAndUpdate_def)
  with j show ?thesis by blast
qed

lemma list_ex_oid: "list_ex (\<lambda>c. oid c = k) db \<longleftrightarrow> (\<exists>c\<in>set db. oid c = k)"
  by (simp add: list_ex_iff)

lemma updateFirst_frame:
  "updateFirst p (\<lambda>c. c\<lparr>status := st\<rparr>) cs = (r, cs') \<Longrightarrow>
   map (\<lambda>c. c\<lparr>status := x\<rparr>) cs' = map (\<lambda>c. c\<lparr>status := x\<rparr>) cs"
proof (induction cs arbitrary: r cs')
  case Nil
  then show ?case by simp
next
  case (Cons c cs)
  show ?case
  proof (cases "p c")
    case True
    with Cons.prems show ?thesis by auto
  next
    case False
    obtain r0 cs0 where u: "updateFirst p (\<lambda>c. c\<lparr>status := st\<rparr>) cs = (r0, cs0)"
      by (cases "updateFirst p (\<lambda>c. c\<lparr>status := st\<rparr>) cs") auto
    with False Cons.prems have "cs' = c # cs0" by simp
    with Cons.IH [OF u] show ?thesis by simp
  qed
qed

lemma patch_status_frame:
  "map (\<lambda>c. c\<lparr>status := x\<rparr>) (contacts (patch_status l w db i st)) =
   map (\<lambda>c. c\<lparr>status := x\<rparr>) db"
  by (auto simp add: patch_status_def findByIdAndUpdate_def handler_result_sel
      split: option.splits prod.splits dest: updateFirst_frame)

text \<open>
  C5, as the code has it. A status outside \<^verbatim>\<open>new\<close>, \<^verbatim>\<open>contacted\<close>, \<^verbatim>\<open>converted\<close> is answered
  with 400 and the collection is as before. For an enumerated status, an id that casts
  to an ObjectId and a store that answers: when no record has that id the answer is 404
  and the collection is as before; when one has, the answer is 200 with a record of the
  collection that has this id and the new status.
\<close>

theorem patch_status_answers:
  "(st \<notin> {js ''new'', js ''contacted'', js ''converted''} \<longrightarrow>
      response (patch_status l w db i st) = respond 400 (Failure ''Invalid status value'') \<and>
      contacts (patch_status l w db i st) = db) \<and>
   (st \<in> {js ''new'', js ''contacted'', js ''converted''} \<and> castObjectId l i = Some k \<and>
    \<not> dbThrows w FindByIdAndUpdate \<longrightarrow>
      (\<not> (\<exists>c\<in>set db. oid c = k) \<longrightarrow>
         response (patch_status l w db i st) = respond 404 (Failure ''Contact not found'') \<and>
         contacts (patch_status l w db i st) = db) \<and>
      ((\<exists>c\<in>set db. oid c = k) \<longrightarrow>
         (\<exists>c. response (patch_status l w db i st) = respond 200 (Updated c) \<and>
              oid c = k \<and> status c = st \<and> c \<in> set (contacts (patch_status l w db i st)))))"
proof (intro conjI impI)
  assume "st \<notin> {js ''new'', js ''contacted'', js ''converted''}"
  then have "st \<notin> set statuses" by (simp add: statuses_def)
  then show "response (patch_status l w db i st) = respond 400 (Failure ''Invalid status value'')"
    and "contacts (patch_status l w db i st) = db"
    by (simp_all add: patch_status_invalid handler_result_sel)
next
  assume a: "st \<in> {js ''new'', js ''contacted'', js ''converted''} \<and> castObjectId l i = Some k \<and>
    \<not> dbThrows w FindByIdAndUpdate"
  then have s: "st \<in> set statuses" by (simp add: statuses_def)
  {
    assume "\<not> (\<exists>c\<in>set db. oid c = k)"
    then have n: "\<not> list_ex (\<lambda>c. oid c = k) db" by (simp add: list_ex_oid)
    show "response (patch_status l w db i st) = respond 404 (Failure ''Contact not found'')"
      and "contacts (patch_status l w db i st) = db"
      using a by (simp_all add: patch_status_not_found [OF s _ _ n] handler_result_sel)
  }
  {
    assume "\<exists>c\<in>set db. oid c = k"
    then have "list_ex (\<lambda>c. oid c = k) db" by (simp add: list_ex_oid)
    from patch_status_updated [OF s _ _ this, of l i w] a
    obtain j where j: "j < length db" "oid (db ! j) = k"
      "patch_status l w db i st =
        handler_result (respond 200 (Updated ((db ! j)\<lparr>status := st\<rparr>)))
          (db[j := (db ! j)\<lparr>status := st\<rparr>]) [Db FindByIdAndUpdate]"
      by blast
    have "(db ! j)\<lparr>status := st\<rparr> \<in> set (db[j := (db ! j)\<lparr>status := st\<rparr>])"
      using j(1) by (simp add: set_update_memI)
    then have "response (patch_status l w db i st) =
          respond 200 (Updated ((db ! j)\<lparr>status := st\<rparr>)) \<and>
        oid ((db ! j)\<lparr>status := st\<rparr>) = k \<and> status ((db ! j)\<lparr>status := st\<rparr>) = st \<and>
        (db ! j)\<lparr>status := st\<rparr> \<in> set (contacts (patch_status l w db i st))"
      using j(2) by (simp add: j(3) handler_result_sel)
    then show "\<exists>c. response (patch_status l w db i st) = respond 200 (Updated c) \<and>
              oid c = k \<and> status c = st \<and> c \<in> set (contacts (patch_status l w db i st))"
      by (rule exI)
  }
qed

theorem patch_status_answers_witness:
  "response (patch_status sampleLib quietWorld [janeStored, secondContact]
      (js ''000000000000000000000002'') (js ''bogus'')) = respond 400 (Failure ''Invalid status value'') \<and>
   contacts (patch_status sampleLib quietWorld [janeStored, secondContact]
      (js ''000000000000000000000002'') (js ''bogus'')) = [janeStored, secondContact] \<and>
   response (patch_status sampleLib quietWorld [janeStored, secondContact]
      (js ''000000000000000000000003'') (js ''contacted'')) = respond 404 (Failure ''Contact not found'') \<and>
   response (patch_status sampleLib quietWorld [janeStored, secondContact]
      (js ''000000000000000000000002'') (js ''contacted'')) =
     respond 200 (Updated (secondContact\<lparr>status := js ''contacted''\<rparr>))"
proof -
  have k: "castObjectId sampleLib (js ''000000000000000000000002'') = Some 2"
    "castObjectId sampleLib (js ''000000000000000000000003'') = Some 3"
    by (simp_all add: stand_in isDigit_def js_def)
  have w: "\<not> dbThrows quietWorld FindByIdAndUpdate"
    by (simp add: quietWorld_def)
  have o: "oid janeStored = 1" "oid secondContact = 2"
    by (simp_all add: janeStored_def secondContact_def)
  have 1: "response (patch_status sampleLib quietWorld [janeStored, secondContact]
      (js ''000000000000000000000002'') (js ''bogus'')) = respond 400 (Failure ''Invalid status value'') \<and>
   contacts (patch_status sampleLib quietWorld [janeStored, secondContact]
      (js ''000000000000000000000002'') (js ''bogus'')) = [janeStored, secondContact]"
    using patch_status_answers [where st = "js ''bogus''" and l = sampleLib and w = quietWorld
        and db = "[janeStored, secondContact]" and i = "js ''000000000000000000000002''" and k = 2]
    by (simp add: js_def)
  have 2: "response (patch_status sampleLib quietWorld [janeStored, secondContact]
      (js ''000000000000000000000003'') (js ''contacted'')) = respond 404 (Failure ''Contact not found'')"
    using patch_status_answers [where st = "js ''contacted''" and l = sampleLib and w = quietWorld
        and db = "[janeStored, secondContact]" and i = "js ''000000000000000000000003''" and k = 3]
    by (simp add: k w o)
  have "\<exists>c. response (patch_status sampleLib quietWorld [janeStored, secondContact]
      (js ''000000000000000000000002'') (js ''contacted'')) = respond 200 (Updated c) \<and> oid c = 2 \<and>
      status c = (js ''contacted'') \<and>
      c \<in> set (contacts (patch_status sampleLib quietWorld [janeStored, secondContact]
      (js ''000000000000000000000002'') (js ''contacted'')))"
    using patch_status_answers [where st = "js ''contacted''" and l = sampleLib and w = quietWorld
        and db = "[janeStored, secondContact]" and i = "js ''000000000000000000000002''" and k = 2]
    by (simp add: k w o)
  moreover have "patch_status sampleLib quietWorld [janeStored, secondContact]
      (js ''000000000000000000000002'') (js ''contacted'') =
      handler_result (respond 200 (Updated (secondContact\<lparr>status := js ''contacted''\<rparr>)))
        [janeStored, secondContact\<lparr>status := js ''contacted''\<rparr>] [Db FindByIdAndUpdate]"
    by (simp add: patch_status_def findByIdAndUpdate_def k w o statuses_def)
  ultimately have 3: "response (patch_status sampleLib quietWorld [janeStored, secondContact]
      (js ''000000000000000000000002'') (js ''contacted'')) =
     respond 200 (Updated (secondContact\<lparr>status := js ''contacted''\<rparr>))"
    by (simp add: handler_result_sel)
  from 1 2 3 show ?thesis by simp
qed

text \<open>
  C5 as stated fails: the id \<^verbatim>\<open>abc\<close> is the id of no record, the status is enumerated, and
  the answer is 500, not 404. The cast of the id throws inside \<^verbatim>\<open>findByIdAndUpdate\<close> and
  the handler's \<^verbatim>\<open>catch\<close> answers.
\<close>

theorem patch_status_unknown_id_counterexample:
  "response (patch_status sampleLib quietWorld [janeStored] (js ''abc'') (js ''contacted'')) =
     respond 500 (Failure ''Error updating contact status'') \<and>
   httpStatus (response (patch_status sampleLib quietWorld [janeStored] (js ''abc'') (js ''contacted'')))
     \<noteq> 404"
proof -
  have "castObjectId sampleLib (js ''abc'') = None"
    by (simp add: stand_in isDigit_def js_def)
  then show ?thesis
    by (simp add: patch_status_def findByIdAndUpdate_def statuses_def handler_result_sel respond_def)
qed

text \<open>
  C9. For an enumerated status, an id that casts to the ObjectId of some record and a
  store that answers, the collection afterwards is the collection before with one record,
  one that has this id, replaced by itself with the new status: its id, name, email,
  phone, message, form type and time of submission are as before, and every other record
  is as before.
\<close>

theorem patch_status_changes_only_status:
  assumes "st \<in> {js ''new'', js ''contacted'', js ''converted''}"
    and "castObjectId l i = Some k"
    and "\<not> dbThrows w FindByIdAndUpdate"
    and "\<exists>c\<in>set db. oid c = k"
  shows "\<exists>j<length db.
           oid (db ! j) = k \<and>
           contacts (patch_status l w db i st) = db[j := (db ! j)\<lparr>status := st\<rparr>] \<and>
           oid (contacts (patch_status l w db i st) ! j) = oid (db ! j) \<and>
           name (contacts (patch_status l w db i st) ! j) = name (db ! j) \<and>
           email (contacts (patch_status l w db i st) ! j) = email (db ! j) \<and>
           phone (contacts (patch_status l w db i st) ! j) = phone (db ! j) \<and>
           message (contacts (patch_status l w db i st) ! j) = message (db ! j) \<and>
           formType (contacts (patch_status l w db i st) ! j) = formType (db ! j) \<and>
           submittedAt (contacts (patch_status l w db i st) ! j) = submittedAt (db ! j) \<and>
           status (contacts (patch_status l w db i st) ! j) = st \<and>
           (\<forall>n<length db. n \<noteq> j \<longrightarrow> contacts (patch_status l w db i st) ! n = db ! n)"
proof -
  have s: "st \<in> set statuses"
    using assms(1) by (simp add: statuses_def)
  have e: "list_ex (\<lambda>c. oid c = k) db"
    using assms(4) by (simp add: list_ex_oid)
  from patch_status_updated [OF s assms(2,3) e]
  obtain j where j: "j < length db" "oid (db ! j) = k"
    "patch_status l w db i st =
      handler_result (respond 200 (Updated ((db ! j)\<lparr>status := st\<rparr>)))
        (db[j := (db ! j)\<lparr>status := st\<rparr>]) [Db FindByIdAndUpdate]"
    by blast
  have "oid (db ! j) = k \<and>
           contacts (patch_status l w db i st) = db[j := (db ! j)\<lparr>status := st\<rparr>] \<and>
           oid (contacts (patch_status l w db i st) ! j) = oid (db ! j) \<and>
           name (contacts (patch_status l w db i st) ! j) = name (db ! j) \<and>
           email (contacts (patch_status l w db i st) ! j) = email (db ! j) \<and>
           phone (contacts (patch_status l w db i st) ! j) = phone (db ! j) \<and>
           message (contacts (patch_status l w db i st) ! j) = message (db ! j) \<and>
           formType (contacts (patch_status l w db i st) ! j) = formType (db ! j) \<and>
           submittedAt (contacts (patch_status l w db i st) ! j) = submittedAt (db ! j) \<and>
           status (contacts (patch_status l w db i st) ! j) = st \<and>
           (\<forall>n<length db. n \<noteq> j \<longrightarrow> contacts (patch_status l w db i st) ! n = db ! n)"
    using j(1,2) by (simp add: j(3) handler_result_sel)
  with j(1) show ?thesis by blast
qed

theorem patch_status_frame_witness:
  "contacts (patch_status sampleLib quietWorld [janeStored, secondContact]
      (js ''000000000000000000000001'') (js ''converted'')) =
     [janeStored\<lparr>status := js ''converted''\<rparr>, secondContact]"
proof -
  have k: "castObjectId sampleLib (js ''000000000000000000000001'') = Some 1"
    by (simp add: stand_in isDigit_def js_def)
  have w: "\<not> dbThrows quietWorld FindByIdAndUpdate"
    by (simp add: quietWorld_def)
  have o: "oid janeStored = 1" "oid secondContact = 2"
    by (simp_all add: janeStored_def secondContact_def)
  have s: "(js ''converted'') \<in> {js ''new'', js ''contacted'', js ''converted''}"
    by simp
  have e: "\<exists>c\<in>set [janeStored, secondContact]. oid c = 1"
    by (simp add: o)
  from patch_status_changes_only_status [OF s k w e]
  obtain j where j: "j < length [janeStored, secondContact]"
    "oid ([janeStored, secondContact] ! j) = 1"
    "contacts (patch_status sampleLib quietWorld [janeStored, secondContact]
      (js ''000000000000000000000001'') (js ''converted'')) =
     [janeStored, secondContact][j := ([janeStored, secondContact] ! j)\<lparr>status := js ''converted''\<rparr>]"
    by blast
  from j(1,2) have "j = 0"
    by (cases j) (simp_all add: o)
  with j(3) show ?thesis
    by simp
qed

text \<open>
  C10. When the id does not cast to an ObjectId and the status is enumerated, the answer
  is 500 with the message \<^verbatim>\<open>Error updating contact status\<close>, not 404; the collection is
  as before and nothing was sent to the database.
\<close>

theorem patch_status_malformed_id:
  assumes "castObjectId l i = None"
    and "st \<in> {js ''new'', js ''contacted'', js ''converted''}"
  shows "response (patch_status l w db i st) =
           respond 500 (Failure ''Error updating contact status'') \<and>
         httpStatus (response (patch_status l w db i st)) \<noteq> 404 \<and>
         contacts (patch_status l w db i st) = db \<and>
         trace (patch_status l w db i st) = [ConsoleError ''Error updating contact status:'']"
proof -
  have "st \<in> set statuses"
    using assms(2) by (simp add: statuses_def)
  from patch_status_cast_error [OF this assms(1)] show ?thesis
    by (simp add: handler_result_sel respond_def)
qed

theorem patch_status_malformed_id_witness:
  "response (patch_status sampleLib quietWorld [janeStored, secondContact]
      (js ''not-an-object-id'') (js ''converted'')) =
     respond 500 (Failure ''Error updating contact status'') \<and>
   contacts (patch_status sampleLib quietWorld [janeStored, secondContact]
      (js ''not-an-object-id'') (js ''converted'')) = [janeStored, secondContact]"
proof -
  have k: "castObjectId sampleLib (js ''not-an-object-id'') = None"
    by (simp add: stand_in isDigit_def js_def)
  have s: "(js ''converted'') \<in> {js ''new'', js ''contacted'', js ''converted''}"
    by simp
  from patch_status_malformed_id [OF k s] show ?thesis
    by simp
qed

section \<open>The status invariant\<close>

lemma post_contact_contacts:
  "contacts (post_contact l e w s db req) = db \<or>
   contacts (post_contact l e w s db req) = db @ [newContact l w (sanitized l req)]"
  by (simp add: post_contact_def Let_def post_result_def findOne_def save_def
      split: prod.splits promise.splits option.splits)

lemma get_contacts_contacts: "contacts (get_contacts w db p n) = db"
  by (simp add: get_contacts_def Let_def handler_result_def findPage_def countDocuments_def
      split: prod.splits promise.splits)

lemma patch_status_contacts:
  "contacts (patch_status l w db i st) = db \<or>
   (st \<in> set statuses \<and>
    (\<exists>j<length db. contacts (patch_status l w db i st) = db[j := (db ! j)\<lparr>status := st\<rparr>]))"
proof (cases "st \<in> set statuses")
  case False
  then show ?thesis by (simp add: patch_status_invalid handler_result_sel)
next
  case True
  show ?thesis
  proof (cases "castObjectId l i")
    case None
    with True show ?thesis by (simp add: patch_status_cast_error handler_result_sel)
  next
    case (Some k)
    show ?thesis
    proof (cases "dbThrows w FindByIdAndUpdate")
      case True
      with \<open>st \<in> set statuses\<close> Some show ?thesis
        by (simp add: patch_status_db_error handler_result_sel)
    next
      case False
      show ?thesis
      proof (cases "list_ex (\<lambda>c. oid c = k) db")
        case True
        from patch_status_updated [OF \<open>st \<in> set statuses\<close> Some False True]
        show ?thesis using \<open>st \<in> set statuses\<close> by (auto simp: handler_result_sel)
      next
        case nf: False
        from patch_status_not_found [OF \<open>st \<in> set statuses\<close> Some False nf]
        show ?thesis by (simp add: handler_result_sel)
      qed
    qed
  qed
qed

lemma reachable_statuses: "reachable db \<Longrightarrow> list_all (\<lambda>c. status c \<in> set statuses) db"
proof (induction rule: reachable.induct)
  case start
  show ?case by simp
next
  case (post db l e w s req)
  have "status (newContact l w (sanitized l req)) \<in> set statuses"
    by (simp add: newContact_def statuses_def)
  with post.IH post_contact_contacts [of l e w s db req] show ?case
    by auto
next
  case (list db w p n)
  then show ?case by (simp add: get_contacts_contacts)
next
  case (patch db l w i st)
  from patch_status_contacts [of l w db i st] show ?case
  proof
    assume "contacts (patch_status l w db i st) = db"
    with patch.IH show ?thesis by simp
  next
    assume "st \<in> set statuses \<and>
      (\<exists>j<length db. contacts (patch_status l w db i st) = db[j := (db ! j)\<lparr>status := st\<rparr>])"
    then obtain j where j: "st \<in> set statuses" "j < length db"
      "contacts (patch_status l w db i st) = db[j := (db ! j)\<lparr>status := st\<rparr>]"
      by blast
    have "set (db[j := (db ! j)\<lparr>status := st\<rparr>]) \<subseteq> insert ((db ! j)\<lparr>status := st\<rparr>) (set db)"
      by (rule set_update_subset_insert)
    with patch.IH j(1) show ?thesis
      by (auto simp add: j(3) list_all_iff)
  qed
qed

lemma jane_submitted:
  "contacts (post_contact sampleLib production quietWorld \<lparr>transporter = True\<rparr> [] janeDoe) =
     [janeStored]"
proof -
  have f: "\<not> dbThrows quietWorld FindOne" "\<not> dbThrows quietWorld Save"
    "nowCreate quietWorld = 1700000000005" "newObjectId quietWorld = 1"
    by (simp_all add: quietWorld_def)
  have d: "\<not> list_ex (duplicateFilter sampleLib (email (sanitized sampleLib janeDoe))
       (phone (sanitized sampleLib janeDoe)) (nowCheck quietWorld - 3600000)) []"
    by simp
  show ?thesis
    by (simp add: post_contact_created [OF jane_valid jane_passes_gate(1) f(1) d jane_schema f(2)]
        post_result_sel newContact_sanitized jane_fields f janeStored_def)
qed

lemma jane_contacted:
  "contacts (patch_status sampleLib quietWorld [janeStored] (js ''000000000000000000000001'')
     (js ''contacted'')) = [janeStored\<lparr>status := js ''contacted''\<rparr>]"
proof -
  have "castObjectId sampleLib (js ''000000000000000000000001'') = Some 1"
    by (simp add: stand_in isDigit_def js_def)
  moreover have "oid janeStored = 1" "\<not> dbThrows quietWorld FindByIdAndUpdate"
    by (simp_all add: janeStored_def quietWorld_def)
  ultimately show ?thesis
    by (simp add: patch_status_def findByIdAndUpdate_def statuses_def handler_result_sel)
qed

text \<open>
  C8. In every collection that the handlers can reach from the empty one, the status of
  every record is \<^verbatim>\<open>new\<close>, \<^verbatim>\<open>contacted\<close> or \<^verbatim>\<open>converted\<close>. A record that a submission adds
  has the status \<^verbatim>\<open>new\<close>, and a status update with any other value leaves the collection
  as it was.
\<close>

theorem status_invariant:
  assumes "reachable db"
  shows "(\<forall>c\<in>set db. status c \<in> {js ''new'', js ''contacted'', js ''converted''}) \<and>
         (\<forall>l e w s req. \<forall>c\<in>set (contacts (post_contact l e w s db req)) - set db.
            status c = (js ''new'')) \<and>
         (\<forall>l w i st. st \<notin> {js ''new'', js ''contacted'', js ''converted''} \<longrightarrow>
            contacts (patch_status l w db i st) = db)"
proof -
  have 1: "\<forall>c\<in>set db. status c \<in> {js ''new'', js ''contacted'', js ''converted''}"
    using reachable_statuses [OF assms] by (simp add: list_all_iff statuses_def)
  have 2: "\<forall>c\<in>set (contacts (post_contact l e w s db req)) - set db. status c = (js ''new'')"
    for l e w s req
    using post_contact_contacts [of l e w s db req] by (auto simp add: newContact_def)
  have 3: "st \<notin> {js ''new'', js ''contacted'', js ''converted''} \<longrightarrow>
            contacts (patch_status l w db i st) = db" for l w i st
    by (simp add: patch_status_invalid handler_result_sel statuses_def)
  from 1 2 3 show ?thesis by blast
qed

theorem status_invariant_witness:
  "reachable [janeStored\<lparr>status := js ''contacted''\<rparr>] \<and>
   status (janeStored\<lparr>status := js ''contacted''\<rparr>) \<in> {js ''new'', js ''contacted'', js ''converted''}"
proof -
  have "reachable (contacts (post_contact sampleLib production quietWorld
      \<lparr>transporter = True\<rparr> [] janeDoe))"
    by (rule reachable.post) (rule reachable.start)
  then have "reachable [janeStored]"
    by (simp only: jane_submitted)
  then have "reachable (contacts (patch_status sampleLib quietWorld [janeStored]
      (js ''000000000000000000000001'') (js ''contacted'')))"
    by (rule reachable.patch)
  then have r: "reachable [janeStored\<lparr>status := js ''contacted''\<rparr>]"
    by (simp only: jane_contacted)
  from status_invariant [OF r] r show ?thesis
    by simp
qed

section \<open>Listing\<close>

lemma ceilDiv_ceiling: "ceilDiv n k = \<lceil>real_of_int n / real_of_int k\<rceil>"
  by (simp add: ceilDiv_def ceiling_divide_eq_div)

lemma sorted_desc:
  "sorted_wrt (\<lambda>a b. submittedAt b \<le> submittedAt a) (sort_key (\<lambda>c. - submittedAt c) db)"
proof -
  have "sorted (map (\<lambda>c. - submittedAt c) (sort_key (\<lambda>c. - submittedAt c) db))"
    by (rule sorted_sort_key)
  then show ?thesis
    by (simp add: sorted_map)
qed

lemma page_sorted:
  "sorted_wrt (\<lambda>a b. submittedAt b \<le> submittedAt a)
     (take m (drop k (sort_key (\<lambda>c. - submittedAt c) db)))"
  by (intro sorted_wrt_take sorted_wrt_drop sorted_desc)

lemma page_subset:
  "set (take m (drop k (sort_key (\<lambda>c. - submittedAt c) db))) \<subseteq> set db"
proof -
  have "set (take m (drop k (sort_key (\<lambda>c. - submittedAt c) db)))
      \<subseteq> set (sort_key (\<lambda>c. - submittedAt c) db)"
    by (meson order_trans set_take_subset set_drop_subset)
  then show ?thesis by simp
qed

lemma get_contacts_ok:
  assumes "\<not> dbThrows w Find" "\<not> dbThrows w CountDocuments"
    "0 \<le> (orDefault p 1 - 1) * orDefault n 20"
  shows "get_contacts w db p n =
     handler_result
       (respond 200
          (Listing
             (take (nat \<bar>orDefault n 20\<bar>) (drop (nat ((orDefault p 1 - 1) * orDefault n 20))
                (sort_key (\<lambda>c. - submittedAt c) db)))
             (orDefault p 1) (orDefault n 20) (int (length db))
             (ceilDiv (int (length db)) (orDefault n 20))))
       db [Db Find, Db CountDocuments]"
  using assms
  by (simp add: get_contacts_def Let_def findPage_def countDocuments_def)

lemma get_contacts_negative_skip:
  assumes "(orDefault p 1 - 1) * orDefault n 20 < 0"
  shows "get_contacts w db p n =
     handler_result (respond 500 (Failure ''Error fetching contacts'')) db
       [Db Find, ConsoleError ''Error fetching contacts:'']"
  using assms
  by (simp add: get_contacts_def Let_def findPage_def)

text \<open>
  C6, as the code has it. \<open>page\<close> and \<open>limit\<close> are the parameters after their defaults (1
  and 20 replace a missing, non-numeric or zero value). When the store answers and the
  skip, \<open>(page - 1) * limit\<close>, is not negative, the answer is 200 with items in
  descending order of \<open>submittedAt\<close>, all of them records of the collection; for a
  positive limit they are the \<open>limit\<close> records after the first \<open>(page - 1) * limit\<close> of the
  sorted collection, so page 1 starts at the newest record. \<open>total\<close> is the number of
  records whatever the page and the limit, \<open>pages\<close> is the ceiling of total / limit, and a
  page past the last record has no items. Listing changes nothing.
\<close>

theorem list_contacts_page:
  assumes "\<not> dbThrows w Find" and "\<not> dbThrows w CountDocuments"
    and "0 \<le> (orDefault p 1 - 1) * orDefault n 20"
  shows "\<exists>items.
     response (get_contacts w db p n) =
       respond 200
         (Listing items (orDefault p 1) (orDefault n 20) (int (length db))
            \<lceil>real (length db) / real_of_int (orDefault n 20)\<rceil>) \<and>
     sorted_wrt (\<lambda>a b. submittedAt b \<le> submittedAt a) items \<and>
     set items \<subseteq> set db \<and>
     (0 < orDefault n 20 \<longrightarrow>
        items = take (nat (orDefault n 20)) (drop (nat ((orDefault p 1 - 1) * orDefault n 20))
                  (sort_key (\<lambda>c. - submittedAt c) db))) \<and>
     (int (length db) \<le> (orDefault p 1 - 1) * orDefault n 20 \<longrightarrow> items = []) \<and>
     contacts (get_contacts w db p n) = db"
proof -
  let ?items = "take (nat \<bar>orDefault n 20\<bar>) (drop (nat ((orDefault p 1 - 1) * orDefault n 20))
                (sort_key (\<lambda>c. - submittedAt c) db))"
  have c: "ceilDiv (int (length db)) (orDefault n 20) =
      \<lceil>real (length db) / real_of_int (orDefault n 20)\<rceil>"
    by (simp add: ceilDiv_ceiling)
  have "response (get_contacts w db p n) =
       respond 200
         (Listing ?items (orDefault p 1) (orDefault n 20) (int (length db))
            \<lceil>real (length db) / real_of_int (orDefault n 20)\<rceil>)"
    by (simp add: get_contacts_ok [OF assms] handler_result_sel c)
  moreover have "sorted_wrt (\<lambda>a b. submittedAt b \<le> submittedAt a) ?items"
    by (rule page_sorted)
  moreover have "set ?items \<subseteq> set db"
    by (rule page_subset)
  moreover have "0 < orDefault n 20 \<longrightarrow>
        ?items = take (nat (orDefault n 20)) (drop (nat ((orDefault p 1 - 1) * orDefault n 20))
                  (sort_key (\<lambda>c. - submittedAt c) db))"
    by simp
  moreover have "int (length db) \<le> (orDefault p 1 - 1) * orDefault n 20 \<longrightarrow> ?items = []"
    by simp
  moreover have "contacts (get_contacts w db p n) = db"
    by (simp add: get_contacts_ok [OF assms] handler_result_sel)
  ultimately show ?thesis
    by blast
qed

theorem list_contacts_page_witness:
  "response (get_contacts quietWorld [janeStored, secondContact] (Some 1) (Some 1)) =
     respond 200 (Listing [secondContact] 1 1 2 2) \<and>
   response (get_contacts quietWorld [janeStored, secondContact] (Some 3) (Some 1)) =
     respond 200 (Listing [] 3 1 2 2) \<and>
   response (get_contacts quietWorld [janeStored, secondContact] None None) =
     respond 200 (Listing [secondContact, janeStored] 1 20 2 1)"
proof -
  have w: "\<not> dbThrows quietWorld Find" "\<not> dbThrows quietWorld CountDocuments"
    by (simp_all add: quietWorld_def)
  have d: "orDefault (Some 1) 1 = 1" "orDefault (Some 3) 1 = 3" "orDefault (Some 1) 20 = 1"
    "orDefault None 1 = 1" "orDefault None 20 = 20"
    by (simp_all add: orDefault_def)
  have t: "submittedAt janeStored = 1700000000005" "submittedAt secondContact = 1700000500000"
    by (simp_all add: janeStored_def secondContact_def)
  have 1: "response (get_contacts quietWorld [janeStored, secondContact] (Some 1) (Some 1)) =
     respond 200 (Listing [secondContact] 1 1 2 2)"
    using list_contacts_page [OF w, of "Some 1" "Some 1" "[janeStored, secondContact]"]
    by (auto simp add: d t)
  have 2: "response (get_contacts quietWorld [janeStored, secondContact] (Some 3) (Some 1)) =
     respond 200 (Listing [] 3 1 2 2)"
    using list_contacts_page [OF w, of "Some 3" "Some 1" "[janeStored, secondContact]"]
    by (auto simp add: d)
  have c: "\<lceil>(1::real) / 10\<rceil> = 1"
    by (rule ceiling_unique) simp_all
  have 3: "response (get_contacts quietWorld [janeStored, secondContact] None None) =
     respond 200 (Listing [secondContact, janeStored] 1 20 2 1)"
    using list_contacts_page [OF w, of None None "[janeStored, secondContact]"]
    by (auto simp add: d t c)
  from 1 2 3 show ?thesis
    by simp
qed

text \<open>
  C6 as stated fails for a negative page: page -1 with the default limit asks the store
  to skip -40 records, the store refuses, and the handler answers 500 instead of an empty
  page.
\<close>

theorem list_contacts_negative_page_counterexample:
  "response (get_contacts quietWorld [janeStored, secondContact] (Some (- 1)) None) =
     respond 500 (Failure ''Error fetching contacts'')"
  by (simp add: get_contacts_negative_skip orDefault_def handler_result_sel)

section \<open>Two submissions in a row\<close>

text \<open>
  The same request twice, the first one accepted, so that the schema accepts its
  document whatever the clock and the \<^verbatim>\<open>_id\<close> are: while the second duplicate check runs
  within an hour of the first record's \<open>submittedAt\<close>, the second answer is 429 and no
  second record is stored; once the hour has passed, the second answer is 201 and the
  collection holds both records.
\<close>

lemma resubmission:
  assumes v: "validationResult l req = []"
    and first: "fst (verifyRecaptcha e w1 (recaptchaToken req))" "\<not> dbThrows w1 FindOne"
      "\<not> dbThrows w1 Save"
      "\<not> (\<exists>c\<in>set db.
         (email c = toLowerCase l (trim (normalizeEmail l (trim (email req)))) \<or>
          phone c = trim (phone req)) \<and>
         nowCheck w1 - 60 * 60 * 1000 \<le> submittedAt c)"
      "schemaValid (newContact l w1 (sanitized l req))"
    and second: "fst (verifyRecaptcha e w2 (recaptchaToken req))" "\<not> dbThrows w2 FindOne"
      "\<not> dbThrows w2 Save"
  shows "(nowCheck w2 - 60 * 60 * 1000 \<le> nowCreate w1 \<longrightarrow>
           httpStatus (response (post_contact l e w2 s2
             (contacts (post_contact l e w1 s1 db req)) req)) = 429 \<and>
           contacts (post_contact l e w2 s2 (contacts (post_contact l e w1 s1 db req)) req) =
             contacts (post_contact l e w1 s1 db req)) \<and>
         (nowCreate w1 < nowCheck w2 - 60 * 60 * 1000 \<and> nowCheck w1 \<le> nowCheck w2 \<longrightarrow>
           httpStatus (response (post_contact l e w2 s2
             (contacts (post_contact l e w1 s1 db req)) req)) = 201 \<and>
           contacts (post_contact l e w2 s2 (contacts (post_contact l e w1 s1 db req)) req) =
             db @ [newContact l w1 (sanitized l req), newContact l w2 (sanitized l req)])"
proof -
  let ?flt = "\<lambda>w. duplicateFilter l (email (sanitized l req)) (phone (sanitized l req))
       (nowCheck w - 3600000)"
  have d1: "\<not> list_ex (?flt w1) db"
    using first(4) by (simp add: duplicate_exists)
  have m: "schemaValid (newContact l w (sanitized l req))" for w
    using first(5) schemaValid_newContact_world [of l w1 "sanitized l req" w] by simp
  have db1: "contacts (post_contact l e w1 s1 db req) = db @ [newContact l w1 (sanitized l req)]"
    by (simp add: post_contact_created [OF v first(1,2) d1 m first(3)] post_result_sel)
  have self: "?flt w2 (newContact l w1 (sanitized l req)) \<longleftrightarrow>
      nowCheck w2 - 3600000 \<le> nowCreate w1"
    by (simp add: duplicateFilter_def newContact_def)
  show ?thesis
  proof (intro conjI impI)
    assume "nowCheck w2 - 60 * 60 * 1000 \<le> nowCreate w1"
    then have d2: "list_ex (?flt w2) (db @ [newContact l w1 (sanitized l req)])"
      by (simp add: self)
    show "httpStatus (response (post_contact l e w2 s2
             (contacts (post_contact l e w1 s1 db req)) req)) = 429"
      and "contacts (post_contact l e w2 s2 (contacts (post_contact l e w1 s1 db req)) req) =
             contacts (post_contact l e w1 s1 db req)"
      by (simp_all add: db1 post_contact_duplicate [OF v second(1,2) d2] post_result_sel
          respond_def)
  next
    assume a: "nowCreate w1 < nowCheck w2 - 60 * 60 * 1000 \<and> nowCheck w1 \<le> nowCheck w2"
    have "\<not> list_ex (?flt w2) db"
      using d1 a by (auto simp add: list_ex_iff duplicateFilter_def)
    then have d2: "\<not> list_ex (?flt w2) (db @ [newContact l w1 (sanitized l req)])"
      using a by (simp add: self)
    show "httpStatus (response (post_contact l e w2 s2
             (contacts (post_contact l e w1 s1 db req)) req)) = 201"
      and "contacts (post_contact l e w2 s2 (contacts (post_contact l e w1 s1 db req)) req) =
             db @ [newContact l w1 (sanitized l req), newContact l w2 (sanitized l req)]"
      by (simp_all add: db1 post_contact_created [OF v second(1,2) d2 m second(3)]
          post_result_sel respond_def)
  qed
qed

end
